theory Spec2Isabelle
  imports Complex_Main "HOL-Library.Sublist"
begin

section \<open>Batch SEO audit route: data model\<close>

text \<open>
  The route handler \<^verbatim>\<open>app/api/audit/route.ts\<close> is embedded function by function.
  JavaScript strings are modelled as \<^typ>\<open>string\<close> (a code unit is a \<^typ>\<open>char\<close>, so the
  model covers texts of code units below 256),
  JavaScript numbers as exact reals (the arithmetic only ever divides small integers and
  halves; rounding and threshold comparisons are taken on the exact value, not on its
  binary64 approximation), and a thrown exception as the \<open>Inl\<close> branch of a sum.
\<close>

datatype status = Pass | Warn | Fail

datatype detail = DNum real | DStr string | DBool bool | DList "string list"

record Issue =
  issue_id :: string
  status :: status
  details :: "(string \<times> detail) list option"
  fixtext :: string
  page :: string
  category :: string

section \<open>JavaScript strings\<close>

text \<open>A character range \<^verbatim>\<open>lo-hi\<close> of a character class, by code unit.\<close>

definition inRange :: "char \<Rightarrow> char \<Rightarrow> char \<Rightarrow> bool" where
  "inRange lo hi c = ((of_char lo :: int) \<le> of_char c \<and> (of_char c :: int) \<le> of_char hi)"

definition isUpper :: "char \<Rightarrow> bool" where
  "isUpper c = inRange CHR ''A'' CHR ''Z'' c"

definition isLower :: "char \<Rightarrow> bool" where
  "isLower c = inRange CHR ''a'' CHR ''z'' c"

definition isDigit :: "char \<Rightarrow> bool" where
  "isDigit c = inRange CHR ''0'' CHR ''9'' c"

text \<open>Case mapping of a code unit below 256: the ASCII letters and the letters of the
  Latin-1 range (\<open>0xC0\<close> to \<open>0xDE\<close> and \<open>0xE0\<close> to \<open>0xFE\<close>, the signs \<open>0xD7\<close> and
  \<open>0xF7\<close> apart). A code unit whose upper-case form lies outside the range (\<open>0xB5\<close>,
  \<open>0xDF\<close>, \<open>0xFF\<close>) is left as it is by \<open>toUpperChar\<close>.\<close>

definition toLowerChar :: "char \<Rightarrow> char" where
  "toLowerChar c =
     (if isUpper c \<or> (inRange (CHR 0xC0) (CHR 0xDE) c \<and> c \<noteq> CHR 0xD7)
      then char_of (of_char c + (32::int)) else c)"

definition toUpperChar :: "char \<Rightarrow> char" where
  "toUpperChar c =
     (if isLower c \<or> (inRange (CHR 0xE0) (CHR 0xFE) c \<and> c \<noteq> CHR 0xF7)
      then char_of (of_char c - (32::int)) else c)"

definition toLowerCase :: "string \<Rightarrow> string" where
  "toLowerCase s = map toLowerChar s"

definition toUpperCase :: "string \<Rightarrow> string" where
  "toUpperCase s = map toUpperChar s"

text \<open>White space and line terminators among the code units below 256: what \<^verbatim>\<open>\s\<close>
  matches and what \<^verbatim>\<open>trim\<close> strips.\<close>

definition isSpace :: "char \<Rightarrow> bool" where
  "isSpace c = (c \<in> set [CHR '' '', CHR 0x09, CHR 0x0A, CHR 0x0B, CHR 0x0C, CHR 0x0D, CHR 0xA0])"

definition isWordChar :: "char \<Rightarrow> bool" where
  "isWordChar c = (isUpper c \<or> isLower c \<or> isDigit c \<or> c = CHR ''_'')"

definition trimStart :: "string \<Rightarrow> string" where
  "trimStart s = dropWhile isSpace s"

definition trim :: "string \<Rightarrow> string" where
  "trim s = rev (dropWhile isSpace (rev (dropWhile isSpace s)))"

definition startsWith :: "string \<Rightarrow> string \<Rightarrow> bool" where
  "startsWith s p = prefix p s"

definition endsWith :: "string \<Rightarrow> string \<Rightarrow> bool" where
  "endsWith s p = suffix p s"

fun includesStr :: "string \<Rightarrow> string \<Rightarrow> bool" where
  "includesStr [] p = (p = [])"
| "includesStr (c # s) p = (prefix p (c # s) \<or> includesStr s p)"

text \<open>\<^verbatim>\<open>s.split(sep)\<close> for a one-character separator.\<close>

fun splitOn :: "char \<Rightarrow> string \<Rightarrow> string list" where
  "splitOn sep [] = [[]]"
| "splitOn sep (c # s) =
     (if c = sep then [] # splitOn sep s
      else (case splitOn sep s of [] \<Rightarrow> [[c]] | w # ws \<Rightarrow> (c # w) # ws))"

section \<open>Regular expressions\<close>

text \<open>
  The regular expressions of the source are kept as syntax trees and run by a backtracking
  matcher that lists the outcomes in the order in which the JavaScript matcher tries them:
  the first outcome is the match that \<^verbatim>\<open>exec\<close> reports.
\<close>

datatype re =
    REps
  | RCls bool "char \<Rightarrow> bool"
  | RSeq re re
  | RAlt re re
  | RRep bool nat "nat option" re
  | RGroup nat re
  | RWordB
  | RBol

text \<open>A matcher state: the character before the current position (none at the start of the
  input), the rest of the input, and the captures made so far (latest first).\<close>

type_synonym mstate = "char option \<times> string \<times> (nat \<times> string) list"

definition classHit :: "bool \<Rightarrow> (char \<Rightarrow> bool) \<Rightarrow> char \<Rightarrow> bool" where
  "classHit ic P c = (P c \<or> (ic \<and> (P (toLowerChar c) \<or> P (toUpperChar c))))"

definition isWordAt :: "char option \<Rightarrow> bool" where
  "isWordAt p = (case p of None \<Rightarrow> False | Some c \<Rightarrow> isWordChar c)"

definition nextChar :: "string \<Rightarrow> char option" where
  "nextChar s = (case s of [] \<Rightarrow> None | c # _ \<Rightarrow> Some c)"

definition decr :: "nat option \<Rightarrow> nat option" where
  "decr mx = (case mx of None \<Rightarrow> None | Some k \<Rightarrow> Some (k - 1))"

fun rsize :: "re \<Rightarrow> nat" where
  "rsize REps = 1"
| "rsize (RCls neg P) = 1"
| "rsize (RSeq a b) = 1 + rsize a + rsize b"
| "rsize (RAlt a b) = 1 + rsize a + rsize b"
| "rsize (RRep g m mx r) = 1 + m + (case mx of None \<Rightarrow> 0 | Some k \<Rightarrow> k) + rsize r"
| "rsize (RGroup n r) = 1 + rsize r"
| "rsize RWordB = 1"
| "rsize RBol = 1"

function rmatch :: "bool \<Rightarrow> re \<Rightarrow> mstate \<Rightarrow> mstate list" where
  "rmatch ic REps st = [st]"
| "rmatch ic (RCls neg P) (p, [], cs) = []"
| "rmatch ic (RCls neg P) (p, c # s, cs) =
     (if classHit ic P c \<noteq> neg then [(Some c, s, cs)] else [])"
| "rmatch ic (RSeq a b) st = concat (map (rmatch ic b) (rmatch ic a st))"
| "rmatch ic (RAlt a b) st = rmatch ic a st @ rmatch ic b st"
| "rmatch ic (RGroup n r) (p, s, cs) =
     map (\<lambda>st'. (fst st', fst (snd st'),
                 (n, take (length s - length (fst (snd st'))) s) # snd (snd st')))
       (rmatch ic r (p, s, cs))"
| "rmatch ic RWordB (p, s, cs) =
     (if isWordAt p \<noteq> isWordAt (nextChar s) then [(p, s, cs)] else [])"
| "rmatch ic RBol (p, s, cs) = (if p = None then [(p, s, cs)] else [])"
| "rmatch ic (RRep g (Suc m) mx r) st =
     concat (map (rmatch ic (RRep g m (decr mx) r)) (rmatch ic r st))"
| "rmatch ic (RRep g 0 mx r) st =
     (if mx = Some 0 then [st]
      else
        let more = concat (map (\<lambda>st'.
              if length (fst (snd st')) < length (fst (snd st))
              then rmatch ic (RRep g 0 (decr mx) r) st' else [])
            (rmatch ic r st))
        in if g then more @ [st] else st # more)"
  by pat_completeness auto
termination
  by (relation "inv_image (less_than <*lex*> less_than)
        (\<lambda>(ic, r, st). (rsize r, length (fst (snd st))))")
     (auto simp: decr_def split: option.splits)


text \<open>The result of a successful \<^verbatim>\<open>exec\<close>: the text skipped before the match, the
  matched text \<^verbatim>\<open>m[0]\<close>, the captures, and the input after the match with the character
  preceding it.\<close>

record Match =
  skipped :: string
  matched :: string
  groups :: "(nat \<times> string) list"
  afterPrev :: "char option"
  after :: string

text \<open>\<^verbatim>\<open>m[n]\<close>: the last capture of group \<open>n\<close>, undefined when the group took no part.\<close>

definition groupOf :: "Match \<Rightarrow> nat \<Rightarrow> string option" where
  "groupOf m n = map_of (groups m) n"

text \<open>The leftmost match at or after the current position.\<close>

fun rsearch :: "bool \<Rightarrow> re \<Rightarrow> char option \<Rightarrow> string \<Rightarrow> (string \<times> mstate) option" where
  "rsearch ic r p [] =
     (case rmatch ic r (p, [], []) of [] \<Rightarrow> None | st # _ \<Rightarrow> Some ([], st))"
| "rsearch ic r p (c # s) =
     (case rmatch ic r (p, c # s, []) of
        st # _ \<Rightarrow> Some ([], st)
      | [] \<Rightarrow> (case rsearch ic r (Some c) s of
                 None \<Rightarrow> None
               | Some (pre, st) \<Rightarrow> Some (c # pre, st)))"

definition mkMatch :: "string \<Rightarrow> string \<times> mstate \<Rightarrow> Match" where
  "mkMatch s f =
     (let here = drop (length (fst f)) s; st = snd f
      in \<lparr>skipped = fst f,
          matched = take (length here - length (fst (snd st))) here,
          groups = snd (snd st),
          afterPrev = fst st,
          after = fst (snd st)\<rparr>)"

definition exec_from :: "bool \<Rightarrow> re \<Rightarrow> char option \<Rightarrow> string \<Rightarrow> Match option" where
  "exec_from ic r p s = map_option (mkMatch s) (rsearch ic r p s)"

definition exec :: "bool \<Rightarrow> re \<Rightarrow> string \<Rightarrow> Match option" where
  "exec ic r s = exec_from ic r None s"

definition test :: "bool \<Rightarrow> re \<Rightarrow> string \<Rightarrow> bool" where
  "test ic r s = (exec ic r s \<noteq> None)"

text \<open>All matches of a global regular expression, left to right, each search starting
  where the previous match ended (one character further after an empty match), and the
  text left after the last match. The \<open>skipped\<close> of a match is the text between it and the
  previous one.\<close>

definition shiftChar :: "char \<Rightarrow> Match list \<times> string \<Rightarrow> Match list \<times> string" where
  "shiftChar c r =
     (case fst r of
        [] \<Rightarrow> ([], c # snd r)
      | m # ms \<Rightarrow> (m\<lparr>skipped := c # skipped m\<rparr> # ms, snd r))"

function scanAll :: "bool \<Rightarrow> re \<Rightarrow> char option \<Rightarrow> string \<Rightarrow> Match list \<times> string" where
  "scanAll ic r p s =
     (case exec_from ic r p s of
        None \<Rightarrow> ([], s)
      | Some m \<Rightarrow>
          if matched m = []
          then (case drop (length (skipped m)) s of
                  [] \<Rightarrow> ([m], [])
                | c # t \<Rightarrow> (let r' = shiftChar c (scanAll ic r (Some c) t)
                            in (m # fst r', snd r')))
          else (let r' = scanAll ic r (afterPrev m) (drop (length (skipped m) + length (matched m)) s)
                in (m # fst r', snd r')))"
  by pat_completeness auto
termination
proof (relation "measure (\<lambda>(ic, r, p, s). length s)", goal_cases)
  case 1
  show ?case by simp
next
  case (2 ic r p s m c t)
  have "length (drop (length (skipped m)) s) \<le> length s" by simp
  with 2 show ?case by simp
next
  case (3 ic r p s m)
  then have "matched m \<noteq> []" by simp
  then have "0 < length (skipped m) + length (matched m)" by simp
  moreover from 3 have "length (skipped m) + length (matched m) \<le> length s"
    by (auto simp: exec_from_def mkMatch_def Let_def)
  ultimately have "length s - (length (skipped m) + length (matched m)) < length s"
    by arith
  then show ?case by simp
qed

definition matchAll :: "bool \<Rightarrow> re \<Rightarrow> string \<Rightarrow> Match list" where
  "matchAll ic r s = fst (scanAll ic r None s)"

text \<open>\<^verbatim>\<open>s.replace(re, repl)\<close> with a global and with a non-global regular expression, for
  a replacement text without \<^verbatim>\<open>$\<close> patterns.\<close>

definition replaceAll :: "bool \<Rightarrow> re \<Rightarrow> string \<Rightarrow> string \<Rightarrow> string" where
  "replaceAll ic r repl s =
     (let sc = scanAll ic r None s in concat (map (\<lambda>m. skipped m @ repl) (fst sc)) @ snd sc)"

definition replaceFirst :: "bool \<Rightarrow> re \<Rightarrow> string \<Rightarrow> string \<Rightarrow> string" where
  "replaceFirst ic r repl s =
     (case exec ic r s of None \<Rightarrow> s | Some m \<Rightarrow> skipped m @ repl @ after m)"

subsection \<open>Notation for the regular expressions of the source\<close>

definition lit :: "string \<Rightarrow> re" where
  "lit s = foldr (\<lambda>c r. RSeq (RCls False (\<lambda>x. x = c)) r) s REps"

definition seqs :: "re list \<Rightarrow> re" where
  "seqs rs = foldr RSeq rs REps"

definition oneOf :: "string \<Rightarrow> char \<Rightarrow> bool" where
  "oneOf cs c = (c \<in> set cs)"

definition anyChar :: "char \<Rightarrow> bool" where
  "anyChar c = True"

definition sq :: char where "sq = CHR 0x27"
definition dq :: char where "dq = CHR 0x22"
definition backslash :: char where "backslash = CHR 0x5C"

text \<open>The recurring pieces \<^verbatim>\<open>['"]\<close>, \<^verbatim>\<open>[^'"]\<close>, \<^verbatim>\<open>[^>]\<close>, \<^verbatim>\<open>[\s\S]\<close>,
  \<^verbatim>\<open>\s\<close> and \<^verbatim>\<open>\d\<close>.\<close>

definition rQuote :: re where "rQuote = RCls False (oneOf [sq, dq])"
definition rNotQuote :: re where "rNotQuote = RCls True (oneOf [sq, dq])"
definition rNotGt :: re where "rNotGt = RCls True (oneOf ''>'')"
definition rAny :: re where "rAny = RCls False anyChar"
definition rSpace :: re where "rSpace = RCls False isSpace"
definition rDigit :: re where "rDigit = RCls False isDigit"

abbreviation rstar :: "re \<Rightarrow> re" where "rstar r \<equiv> RRep True 0 None r"
abbreviation rlazy :: "re \<Rightarrow> re" where "rlazy r \<equiv> RRep False 0 None r"
abbreviation rplus :: "re \<Rightarrow> re" where "rplus r \<equiv> RRep True 1 None r"
abbreviation ropt :: "re \<Rightarrow> re" where "ropt r \<equiv> RRep True 0 (Some 1) r"
abbreviation rcls :: "(char \<Rightarrow> bool) \<Rightarrow> re" where "rcls P \<equiv> RCls False P"
abbreviation rnot :: "(char \<Rightarrow> bool) \<Rightarrow> re" where "rnot P \<equiv> RCls True P"


text \<open>\<^verbatim>\<open>String(n)\<close> for an integer.\<close>

function decimal :: "int \<Rightarrow> string" where
  "decimal n =
     (if n < 0 then CHR ''-'' # decimal (- n)
      else if n < 10 then [char_of (48 + n)]
      else decimal (n div 10) @ [char_of (48 + n mod 10)])"
  by pat_completeness auto
termination
  by (relation "measure (\<lambda>n. if n < 0 then nat (1 - n) else nat n)") auto

section \<open>URLs\<close>

text \<open>
  \<^verbatim>\<open>new URL(...)\<close> is a built-in of the platform. It is modelled after the WHATWG URL
  standard for what the audit route reads from it: whether parsing succeeds, the origin,
  and the serialisation of a URL that has no path, query or fragment. Hosts are ASCII
  domain names and IPv4 addresses; an IPv6 literal, a percent-encoded or a non-ASCII host
  is not modelled and counts as a failure. What follows the authority is kept as written
  in \<open>rest\<close>.
\<close>

record URL =
  scheme :: string
  host :: string
  port :: "string option"
  rest :: string

definition isAlpha :: "char \<Rightarrow> bool" where
  "isAlpha c = (isUpper c \<or> isLower c)"

definition isSchemeChar :: "char \<Rightarrow> bool" where
  "isSchemeChar c = (isAlpha c \<or> isDigit c \<or> oneOf ''+-.'' c)"

definition isC0OrSpace :: "char \<Rightarrow> bool" where
  "isC0OrSpace c = ((of_char c :: int) \<le> 32)"

text \<open>Leading and trailing C0 controls and spaces are stripped, tabs and newlines removed.\<close>

definition urlPreprocess :: "string \<Rightarrow> string" where
  "urlPreprocess s =
     filter (\<lambda>c. \<not> oneOf [CHR 0x09, CHR 0x0A, CHR 0x0D] c)
       (rev (dropWhile isC0OrSpace (rev (dropWhile isC0OrSpace s))))"

definition splitScheme :: "string \<Rightarrow> (string \<times> string) option" where
  "splitScheme s =
     (case s of
        [] \<Rightarrow> None
      | c # _ \<Rightarrow>
          if isAlpha c
          then (case dropWhile isSchemeChar s of
                  [] \<Rightarrow> None
                | d # r \<Rightarrow> if d = CHR '':'' then Some (toLowerCase (takeWhile isSchemeChar s), r)
                           else None)
          else None)"

text \<open>The special schemes with an origin of their own, and their default ports.\<close>

definition defaultPort :: "string \<Rightarrow> string option" where
  "defaultPort sch =
     (if sch = ''http'' then Some ''80'' else if sch = ''https'' then Some ''443''
      else if sch = ''ftp'' then Some ''21'' else if sch = ''ws'' then Some ''80''
      else if sch = ''wss'' then Some ''443'' else None)"

definition isSlash :: "char \<Rightarrow> bool" where
  "isSlash c = (c = CHR ''/'' \<or> c = backslash)"

definition endsAuthority :: "char \<Rightarrow> bool" where
  "endsAuthority c = (isSlash c \<or> c = CHR ''?'' \<or> c = CHR ''#'')"

text \<open>A host code point that a domain may contain: printable ASCII other than the
  forbidden host and domain code points.\<close>

definition hostCharOk :: "char \<Rightarrow> bool" where
  "hostCharOk c =
     (32 < (of_char c :: int) \<and> (of_char c :: int) < 127 \<and>
      \<not> oneOf [CHR ''#'', CHR ''/'', CHR '':'', CHR ''<'', CHR ''>'', CHR ''?'', CHR ''@'',
                CHR ''['', backslash, CHR '']'', CHR ''^'', CHR ''|'', CHR ''%''] c)"

definition digitsValue :: "string \<Rightarrow> int" where
  "digitsValue ds = foldl (\<lambda>n c. 10 * n + (of_char c - 48)) 0 ds"

definition stripZeros :: "string \<Rightarrow> string" where
  "stripZeros ds = (case dropWhile (\<lambda>c. c = CHR ''0'') ds of [] \<Rightarrow> ''0'' | r \<Rightarrow> r)"

text \<open>The port after the host: absent, or decimal digits of a value up to 65535; the
  default port of the scheme is dropped. \<open>None\<close> is a parse failure.\<close>

definition parsePort :: "string \<Rightarrow> string \<Rightarrow> string option option" where
  "parsePort sch pt =
     (case pt of
        [] \<Rightarrow> Some None
      | _ # ds \<Rightarrow>
          if ds = [] then Some None
          else if list_all isDigit ds \<and> digitsValue ds \<le> 65535
          then (if Some (stripZeros ds) = defaultPort sch then Some None
                else Some (Some (stripZeros ds)))
          else None)"

text \<open>A host whose last label is a number is an IPv4 address: up to four numbers in
  decimal, octal (leading \<^verbatim>\<open>0\<close>) or hexadecimal (leading \<^verbatim>\<open>0x\<close>) notation, the last
  one filling the remaining bytes; it is serialised as four decimal numbers.\<close>

definition radixDigit :: "int \<Rightarrow> char \<Rightarrow> int option" where
  "radixDigit R c =
     (let v = (if isDigit c then of_char c - 48
               else if inRange CHR ''a'' CHR ''f'' c then of_char c - 87
               else if inRange CHR ''A'' CHR ''F'' c then of_char c - 55
               else 16)
      in if v < R then Some v else None)"

definition radixValue :: "int \<Rightarrow> string \<Rightarrow> int option" where
  "radixValue R ds =
     foldl (\<lambda>acc c. case (acc, radixDigit R c) of
                       (Some n, Some v) \<Rightarrow> Some (R * n + v)
                     | _ \<Rightarrow> None) (Some 0) ds"

definition parseIPv4Number :: "string \<Rightarrow> int option" where
  "parseIPv4Number input =
     (if input = [] then None
      else if length input \<ge> 2 \<and> (take 2 input = ''0x'' \<or> take 2 input = ''0X'')
      then radixValue 16 (drop 2 input)
      else if length input \<ge> 2 \<and> hd input = CHR ''0''
      then radixValue 8 (drop 1 input)
      else radixValue 10 input)"

definition hostParts :: "string \<Rightarrow> string list" where
  "hostParts h =
     (let parts = splitOn CHR ''.'' h
      in if last parts = [] \<and> length parts > 1 then butlast parts else parts)"

definition endsInNumber :: "string \<Rightarrow> bool" where
  "endsInNumber h =
     (let parts = splitOn CHR ''.'' h
      in if last parts = [] \<and> length parts = 1 then False
         else (let l = last (hostParts h)
               in (l \<noteq> [] \<and> list_all isDigit l) \<or> parseIPv4Number l \<noteq> None))"

fun allSome :: "'a option list \<Rightarrow> 'a list option" where
  "allSome [] = Some []"
| "allSome (x # xs) =
     (case x of
        None \<Rightarrow> None
      | Some v \<Rightarrow> (case allSome xs of None \<Rightarrow> None | Some vs \<Rightarrow> Some (v # vs)))"

definition serialiseIPv4 :: "int \<Rightarrow> string" where
  "serialiseIPv4 n =
     decimal (n div 16777216 mod 256) @ ''.'' @ decimal (n div 65536 mod 256) @ ''.''
     @ decimal (n div 256 mod 256) @ ''.'' @ decimal (n mod 256)"

definition parseIPv4 :: "string \<Rightarrow> string option" where
  "parseIPv4 h =
     (let parts = hostParts h
      in if length parts > 4 then None
         else (case allSome (map parseIPv4Number parts) of
                 None \<Rightarrow> None
               | Some numbers \<Rightarrow>
                   if list_ex (\<lambda>n. n > 255) (butlast numbers) then None
                   else if last numbers \<ge> 256 ^ (5 - length numbers) then None
                   else Some (serialiseIPv4
                          (last numbers
                           + foldl (\<lambda>acc p. acc + fst p * 256 ^ (3 - snd p)) 0
                               (zip (butlast numbers) [0 ..< length numbers - 1])))))"

text \<open>The host of a special scheme: allowed code points only, lower-cased, and an IPv4
  address when it ends in a number. \<open>None\<close> is a parse failure.\<close>

definition parseHost :: "string \<Rightarrow> string option" where
  "parseHost h =
     (if h = [] \<or> \<not> list_all hostCharOk h then None
      else if endsInNumber (toLowerCase h) then parseIPv4 (toLowerCase h)
      else Some (toLowerCase h))"

definition parseURL :: "string \<Rightarrow> URL option" where
  "parseURL input =
     (case splitScheme (urlPreprocess input) of
        None \<Rightarrow> None
      | Some (sch, r) \<Rightarrow>
          if defaultPort sch \<noteq> None
          then
            (let r1 = dropWhile isSlash r;
                 auth = takeWhile (\<lambda>c. \<not> endsAuthority c) r1;
                 remainder = dropWhile (\<lambda>c. \<not> endsAuthority c) r1;
                 hp = last (splitOn CHR ''@'' auth);
                 h = takeWhile (\<lambda>c. c \<noteq> CHR '':'') hp;
                 pt = dropWhile (\<lambda>c. c \<noteq> CHR '':'') hp
             in case parseHost h of
                  None \<Rightarrow> None
                | Some hst \<Rightarrow>
                    (case parsePort sch pt of
                       None \<Rightarrow> None
                     | Some po \<Rightarrow>
                         Some \<lparr>scheme = sch, host = hst, port = po, rest = remainder\<rparr>))
          else Some \<lparr>scheme = sch, host = [], port = None, rest = r\<rparr>)"

text \<open>\<^verbatim>\<open>url.origin\<close>: scheme, host and port for a special scheme, the opaque origin
  \<^verbatim>\<open>null\<close> otherwise.\<close>

definition origin :: "URL \<Rightarrow> string" where
  "origin u =
     (if defaultPort (scheme u) \<noteq> None
      then scheme u @ ''://'' @ host u @ (case port u of None \<Rightarrow> [] | Some p \<Rightarrow> '':'' @ p)
      else ''null'')"

text \<open>\<^verbatim>\<open>url.toString()\<close>: for a special scheme the empty path is serialised as
  \<^verbatim>\<open>/\<close>. (The route only serialises URLs parsed from an origin, whose \<open>rest\<close> is
  empty; a non-empty \<open>rest\<close> is appended as written.)\<close>

definition href :: "URL \<Rightarrow> string" where
  "href u =
     (if defaultPort (scheme u) \<noteq> None
      then scheme u @ ''://'' @ host u @ (case port u of None \<Rightarrow> [] | Some p \<Rightarrow> '':'' @ p)
           @ (if rest u = [] then ''/'' else rest u)
      else scheme u @ '':'' @ rest u)"

text \<open>The origin of \<^verbatim>\<open>new URL(href, base)\<close>; \<open>None\<close> when the constructor throws.\<close>

definition resolveOrigin :: "string \<Rightarrow> URL \<Rightarrow> string option" where
  "resolveOrigin ref b =
     (let h = urlPreprocess ref in
      case splitScheme h of
        Some (sch, r) \<Rightarrow>
          if defaultPort sch \<noteq> None \<and> sch = scheme b
             \<and> \<not> (length r \<ge> 2 \<and> isSlash (r ! 0) \<and> isSlash (r ! 1))
          then Some (origin b)
          else map_option origin (parseURL h)
      | None \<Rightarrow>
          if defaultPort (scheme b) \<noteq> None
          then (if length h \<ge> 2 \<and> isSlash (h ! 0) \<and> isSlash (h ! 1)
                then map_option origin (parseURL (scheme b @ '':'' @ h))
                else Some (origin b))
          else (if startsWith (rest b) ''/'' \<or> startsWith h ''#'' then Some (origin b) else None))"

section \<open>JSON values and the built-ins taken as parameters\<close>

datatype json =
    JNull
  | JBool bool
  | JNum real
  | JStr string
  | JArr "json list"
  | JObj "(string \<times> json) list"

text \<open>\<^verbatim>\<open>JSON.parse\<close> (\<open>None\<close> when it throws) and the number-to-string conversion are
  built-ins of the platform; the functions that call them take them as a parameter.\<close>

record platform =
  JSON_parse :: "string \<Rightarrow> json option"
  Number_toString :: "real \<Rightarrow> string"

text \<open>Property access \<^verbatim>\<open>v[k]\<close> for the keys the route reads: undefined on anything but
  an object that has the key.\<close>

definition getProp :: "json \<Rightarrow> string \<Rightarrow> json option" where
  "getProp v k = (case v of JObj kvs \<Rightarrow> map_of kvs k | _ \<Rightarrow> None)"

definition truthy :: "json \<Rightarrow> bool" where
  "truthy v =
     (case v of JNull \<Rightarrow> False | JBool b \<Rightarrow> b | JNum n \<Rightarrow> n \<noteq> 0 | JStr s \<Rightarrow> s \<noteq> []
      | JArr _ \<Rightarrow> True | JObj _ \<Rightarrow> True)"

definition truthyOpt :: "json option \<Rightarrow> bool" where
  "truthyOpt v = (case v of None \<Rightarrow> False | Some x \<Rightarrow> truthy x)"

definition joinWith :: "string \<Rightarrow> string list \<Rightarrow> string" where
  "joinWith sep xs = (case xs of [] \<Rightarrow> [] | x # r \<Rightarrow> x @ concat (map (\<lambda>y. sep @ y) r))"

text \<open>\<^verbatim>\<open>String(v)\<close>\<close>

fun String_of :: "platform \<Rightarrow> json \<Rightarrow> string" where
  "String_of pf JNull = ''null''"
| "String_of pf (JBool b) = (if b then ''true'' else ''false'')"
| "String_of pf (JNum n) = Number_toString pf n"
| "String_of pf (JStr s) = s"
| "String_of pf (JArr xs) =
     joinWith '','' (map (\<lambda>x. if x = JNull then [] else String_of pf x) xs)"
| "String_of pf (JObj kvs) = ''[object Object]''"

section \<open>JSON-LD extraction\<close>

text \<open>\<^verbatim>\<open>/<script[^>]+type="application\/ld\+json"[^>]*>([\s\S]*?)<\/script>/gi\<close>\<close>

definition ldJsonRe :: re where
  "ldJsonRe = seqs
     [lit ''<script'', rplus rNotGt, lit (''type='' @ [dq] @ ''application/ld+json'' @ [dq]),
      rstar rNotGt, lit ''>'', RGroup 1 (rlazy rAny), lit ''</script>'']"

text \<open>A capture that takes part in every match of its expression.\<close>

definition cap :: "Match \<Rightarrow> nat \<Rightarrow> string" where
  "cap m n = (case groupOf m n of None \<Rightarrow> [] | Some s \<Rightarrow> s)"

text \<open>The texts handed to \<^verbatim>\<open>JSON.parse\<close>, one per structured-data block.\<close>

definition ldJsonBlocks :: "string \<Rightarrow> string list" where
  "ldJsonBlocks html = map (\<lambda>m. trim (cap m 1)) (matchAll True ldJsonRe html)"

text \<open>What one block adds to \<^verbatim>\<open>out\<close>: nothing when \<^verbatim>\<open>JSON.parse\<close> throws (the
  \<^verbatim>\<open>catch\<close> is empty), the elements of an array, the value itself otherwise.\<close>

definition blockRecords :: "platform \<Rightarrow> string \<Rightarrow> json list" where
  "blockRecords pf b =
     (case JSON_parse pf b of
        None \<Rightarrow> []
      | Some j \<Rightarrow> (case j of JArr xs \<Rightarrow> xs | _ \<Rightarrow> [j]))"

definition extractJsonLd :: "platform \<Rightarrow> string \<Rightarrow> json list" where
  "extractJsonLd pf html = foldl (\<lambda>out b. out @ blockRecords pf b) [] (ldJsonBlocks html)"

section \<open>Contact discovery\<close>

record Contact =
  ctype :: string
  cvalue :: string
  sourceUrl :: string
  ctx :: "json option"
  confidence :: real

text \<open>\<^verbatim>\<open>/([a-z0-9._%+-]+)\s?(?:\[at\]|@)\s?([a-z0-9.-]+\.[a-z]{2,})/ig\<close>\<close>

definition EMAIL_RE :: re where
  "EMAIL_RE = seqs
     [RGroup 1 (rplus (rcls (\<lambda>c. isLower c \<or> isDigit c \<or> oneOf ''._%+-'' c))),
      ropt rSpace,
      RAlt (lit ''[at]'') (lit ''@''),
      ropt rSpace,
      RGroup 2 (seqs [rplus (rcls (\<lambda>c. isLower c \<or> isDigit c \<or> oneOf ''.-'' c)),
                      lit ''.'', RRep True 2 None (rcls isLower)])]"

text \<open>\<^verbatim>\<open>/(?:(?:\+?\d{1,3}[\s-]?)?(?:\(?0?\d{2,4}\)?[\s.-]?)?\d{3,4}[\s.-]?\d{3,4})/g\<close>\<close>

definition PHONE_RE :: re where
  "PHONE_RE = seqs
     [ropt (seqs [ropt (lit ''+''), RRep True 1 (Some 3) rDigit,
                  ropt (rcls (\<lambda>c. isSpace c \<or> c = CHR ''-''))]),
      ropt (seqs [ropt (lit ''(''), ropt (lit ''0''), RRep True 2 (Some 4) rDigit, ropt (lit '')''),
                  ropt (rcls (\<lambda>c. isSpace c \<or> oneOf ''.-'' c))]),
      RRep True 3 (Some 4) rDigit,
      ropt (rcls (\<lambda>c. isSpace c \<or> oneOf ''.-'' c)),
      RRep True 3 (Some 4) rDigit]"

text \<open>\<^verbatim>\<open>str.replace(/\s?\[at\]\s?/i, "@").replace(/\s?\[dot\]\s?/ig, ".")\<close>\<close>

definition deobfuscateEmail :: "string \<Rightarrow> string" where
  "deobfuscateEmail str =
     replaceAll True (seqs [ropt rSpace, lit ''[dot]'', ropt rSpace]) ''.''
       (replaceFirst True (seqs [ropt rSpace, lit ''[at]'', ropt rSpace]) ''@'' str)"

text \<open>\<^verbatim>\<open>/<a[^>]+href=['"]([^'"]+)['"][^>]*>([\s\S]*?)<\/a>/gi\<close>\<close>

definition linkRe :: re where
  "linkRe = seqs
     [lit ''<a'', rplus rNotGt, lit ''href='', rQuote, RGroup 1 (rplus rNotQuote), rQuote,
      rstar rNotGt, lit ''>'', RGroup 2 (rlazy rAny), lit ''</a>'']"

text \<open>\<^verbatim>\<open>/<[^>]*>/g\<close>, \<^verbatim>\<open>/<[^>]+>/g\<close>, \<^verbatim>\<open>/<script[\s\S]*?<\/script>/gi\<close>,
  \<^verbatim>\<open>/<style[\s\S]*?<\/style>/gi\<close> and \<^verbatim>\<open>/\s+/g\<close>.\<close>

definition anyTagRe :: re where
  "anyTagRe = seqs [lit ''<'', rstar rNotGt, lit ''>'']"

definition tagRe :: re where
  "tagRe = seqs [lit ''<'', rplus rNotGt, lit ''>'']"

definition scriptRe :: re where
  "scriptRe = seqs [lit ''<script'', rlazy rAny, lit ''</script>'']"

definition styleRe :: re where
  "styleRe = seqs [lit ''<style'', rlazy rAny, lit ''</style>'']"

definition spacesRe :: re where
  "spacesRe = rplus rSpace"

text \<open>The contacts one anchor element gives, in the order of the five tests.\<close>

definition linkContacts :: "string \<Rightarrow> Match \<Rightarrow> Contact list" where
  "linkContacts url m =
     (let hr = cap m 1;
          text = Some (JStr (trim (replaceAll False anyTagRe [] (cap m 2))))
      in (if startsWith hr ''mailto:''
          then [\<lparr>ctype = ''email'', cvalue = drop 7 hr, sourceUrl = url, ctx = text,
                 confidence = 9 / 10\<rparr>] else [])
       @ (if startsWith hr ''tel:''
          then [\<lparr>ctype = ''phone'', cvalue = drop 4 hr, sourceUrl = url, ctx = text,
                 confidence = 8 / 10\<rparr>] else [])
       @ (if includesStr hr ''linkedin.com''
          then [\<lparr>ctype = ''linkedin'', cvalue = hr, sourceUrl = url, ctx = text,
                 confidence = 7 / 10\<rparr>] else [])
       @ (if includesStr hr ''calendly.com''
          then [\<lparr>ctype = ''calendly'', cvalue = hr, sourceUrl = url, ctx = text,
                 confidence = 85 / 100\<rparr>] else [])
       @ (if endsWith hr ''.vcf''
          then [\<lparr>ctype = ''vcard'', cvalue = hr, sourceUrl = url, ctx = text,
                 confidence = 85 / 100\<rparr>] else []))"

definition bodyOf :: "string \<Rightarrow> string" where
  "bodyOf html =
     replaceAll False tagRe '' ''
       (replaceAll True styleRe [] (replaceAll True scriptRe [] html))"

definition emailContacts :: "string \<Rightarrow> string \<Rightarrow> Contact list" where
  "emailContacts url body =
     map (\<lambda>e. \<lparr>ctype = ''email'',
                cvalue = toLowerCase (deobfuscateEmail (cap e 1 @ ''@'' @ cap e 2)),
                sourceUrl = url, ctx = None, confidence = 6 / 10\<rparr>)
       (matchAll True EMAIL_RE body)"

definition phoneContacts :: "string \<Rightarrow> string \<Rightarrow> Contact list" where
  "phoneContacts url body =
     map (\<lambda>ph. \<lparr>ctype = ''phone'',
                 cvalue = trim (replaceAll False spacesRe '' '' (matched ph)),
                 sourceUrl = url, ctx = None, confidence = 5 / 10\<rparr>)
       (matchAll False PHONE_RE body)"

text \<open>The contacts of one \<^verbatim>\<open>contactPoint\<close> entry and of one JSON-LD item.\<close>

definition pointContacts :: "platform \<Rightarrow> string \<Rightarrow> json \<Rightarrow> Contact list" where
  "pointContacts pf url c =
     (if truthyOpt (getProp c ''email'')
      then [\<lparr>ctype = ''email'', cvalue = String_of pf (the (getProp c ''email'')), sourceUrl = url,
             ctx = getProp c ''contactType'', confidence = 85 / 100\<rparr>] else [])
   @ (if truthyOpt (getProp c ''telephone'')
      then [\<lparr>ctype = ''phone'', cvalue = String_of pf (the (getProp c ''telephone'')),
             sourceUrl = url, ctx = getProp c ''contactType'', confidence = 8 / 10\<rparr>] else [])"

definition itemContacts :: "platform \<Rightarrow> string \<Rightarrow> json \<Rightarrow> Contact list" where
  "itemContacts pf url item =
     (if truthy item \<and> getProp item ''@type'' = Some (JStr ''Organization'')
         \<and> truthyOpt (getProp item ''contactPoint'')
      then (case the (getProp item ''contactPoint'') of
              JArr arr \<Rightarrow> concat (map (pointContacts pf url) arr)
            | c \<Rightarrow> pointContacts pf url c)
      else [])"

text \<open>What one crawled page adds to \<^verbatim>\<open>out\<close>.\<close>

definition pageContacts :: "platform \<Rightarrow> string \<times> string \<Rightarrow> Contact list" where
  "pageContacts pf pg =
     (let url = fst pg; html = snd pg; body = bodyOf html
      in concat (map (linkContacts url) (matchAll True linkRe html))
         @ emailContacts url body
         @ phoneContacts url body
         @ concat (map (itemContacts pf url) (extractJsonLd pf html)))"

text \<open>\<^verbatim>\<open>out.filter(...).sort((a,b) => b.confidence - a.confidence)[0] || null\<close>. The sort
  of an array is stable; \<^const>\<open>sort_key\<close> is the stable insertion sort.\<close>

definition bestContact :: "Contact list \<Rightarrow> Contact option" where
  "bestContact out =
     (case sort_key (\<lambda>c. - confidence c)
             (filter (\<lambda>c. ctype c = ''email'' \<or> ctype c = ''calendly'') out) of
        [] \<Rightarrow> None
      | c # _ \<Rightarrow> Some c)"

record Discovered =
  contacts :: "Contact list"
  best :: "Contact option"

definition discoverContacts :: "platform \<Rightarrow> (string \<times> string) list \<Rightarrow> Discovered" where
  "discoverContacts pf pages =
     (let out = concat (map (pageContacts pf) pages)
      in \<lparr>contacts = out, best = bestContact out\<rparr>)"

section \<open>On-page checks\<close>

datatype exn = TypeError string | Error string

text \<open>\<^verbatim>\<open>parseInt\<close> of a text in decimal notation: the value of the leading digits after
  optional white space and sign, \<open>None\<close> for \<^verbatim>\<open>NaN\<close>.\<close>

definition parseInt :: "string \<Rightarrow> int option" where
  "parseInt s =
     (let t = trimStart s;
          neg = (t \<noteq> [] \<and> hd t = CHR ''-'');
          u = (if t \<noteq> [] \<and> (hd t = CHR ''-'' \<or> hd t = CHR ''+'') then tl t else t);
          ds = takeWhile isDigit u
      in if ds = [] then None
         else Some (if neg then - digitsValue ds else digitsValue ds))"

definition groupOr :: "Match option \<Rightarrow> nat \<Rightarrow> string" where
  "groupOr mo n = (case mo of None \<Rightarrow> [] | Some m \<Rightarrow> cap m n)"

definition countMatches :: "bool \<Rightarrow> re \<Rightarrow> string \<Rightarrow> nat" where
  "countMatches ic r s = length (matchAll ic r s)"

subsection \<open>The regular expressions of the checks\<close>

definition titleRe :: re where
  "titleRe = seqs [lit ''<title>'', RGroup 1 (rlazy rAny), lit ''</title>'']"

definition metaContentRe :: "string \<Rightarrow> re" where
  "metaContentRe name = seqs
     [lit ''<meta'', rplus rNotGt, lit ''name='', rQuote, lit name, rQuote, rplus rNotGt,
      lit ''content='', rQuote, RGroup 1 (rstar rNotQuote), rQuote, rstar rNotGt, lit ''>'']"

definition viewportRe :: re where
  "viewportRe = seqs
     [lit ''<meta'', rplus rNotGt, lit ''name='', rQuote, lit ''viewport'', rQuote,
      rplus rNotGt, lit ''>'']"

definition headingRe :: re where
  "headingRe = seqs
     [lit ''<'', RGroup 1 (seqs [lit ''h'', rcls (inRange CHR ''1'' CHR ''6'')]), RWordB,
      rstar rNotGt, lit ''>'']"

definition canonicalRe :: re where
  "canonicalRe = seqs
     [lit ''<link'', rplus rNotGt, lit ''rel='', rQuote, lit ''canonical'', rQuote,
      rplus rNotGt, lit ''href='', rQuote, RGroup 1 (rplus rNotQuote), rQuote, rstar rNotGt,
      lit ''>'']"

definition forbids :: re where
  "forbids = RGroup 1 (RAlt (lit ''noindex'') (lit ''nofollow''))"

definition ogRe :: "string \<Rightarrow> re" where
  "ogRe p = seqs [lit ''<meta'', rplus rNotGt, lit ''property='', rQuote, lit p, rQuote]"

definition srcHttpRe :: re where
  "srcHttpRe = seqs [lit ''src='', rQuote, lit ''http://'']"

definition hrefHttpRe :: re where
  "hrefHttpRe = seqs [lit ''href='', rQuote, lit ''http://'']"

definition imgRe :: re where
  "imgRe = seqs [lit ''<img'', RWordB, rstar rNotGt, lit ''>'']"

definition altRe :: re where
  "altRe = seqs [RWordB, lit ''alt='']"

definition lazyRe :: re where
  "lazyRe = seqs [RWordB, lit ''loading='', rQuote, lit ''lazy'', rQuote]"

definition srcRe :: re where
  "srcRe = seqs [RWordB, lit ''src='', rQuote, RGroup 1 (rplus rNotQuote), rQuote]"

definition cameraRe :: re where
  "cameraRe = seqs [RBol, lit ''IMG'', ropt (rcls (oneOf ''_-'')), rplus rDigit]"

definition imageNRe :: re where
  "imageNRe = seqs [RBol, lit ''image'', rplus rDigit]"

definition anchorRe :: re where
  "anchorRe = seqs
     [lit ''<a'', RWordB, rstar rNotGt, lit ''href='', rQuote, RGroup 1 (rplus rNotQuote),
      rQuote, rstar rNotGt, lit ''>'', RGroup 2 (rlazy rAny), lit ''</a>'']"

definition dateMetaRe :: re where
  "dateMetaRe = seqs
     [lit ''<meta'', rplus rNotGt,
      RGroup 1 (RAlt (lit ''article:published_time'') (RAlt (lit ''date'') (lit ''last-modified''))),
      rplus rNotGt, lit ''content='', rQuote, RGroup 2 (rplus rNotQuote), rQuote]"

definition timeTagRe :: re where
  "timeTagRe = seqs
     [lit ''<time'', rplus rNotGt, lit ''datetime='', rQuote, RGroup 1 (rplus rNotQuote),
      rQuote, rstar rNotGt, lit ''>'']"

definition orgSchemaRe :: re where
  "orgSchemaRe = seqs
     [lit ([dq] @ ''@type'' @ [dq]), rstar rSpace, lit '':'', rstar rSpace, lit [dq],
      RGroup 1 (RAlt (lit ''Organization'') (lit ''LocalBusiness'')), lit [dq]]"

definition telRe :: re where
  "telRe = seqs [RWordB, lit ''tel:'', rstar rSpace]"

definition telephoneRe :: re where
  "telephoneRe = seqs
     [RWordB, lit ''telephone'', rQuote, rstar rSpace, lit '':'', rstar rSpace, rQuote,
      rcls (\<lambda>c. c = CHR ''+'' \<or> isDigit c \<or> c = CHR ''(''), rplus rNotQuote, rQuote]"

definition addressRe :: re where
  "addressRe = seqs
     [lit ([dq] @ ''address'' @ [dq]), rstar rSpace, lit '':'', rstar rSpace, lit ''{'',
      rlazy rAny, lit ([dq] @ ''streetAddress'' @ [dq]), rlazy rAny, lit ''}'']"

definition socialRe :: re where
  "socialRe = RGroup 1
     (RAlt (lit ''sameAs'') (RAlt (lit ''facebook.com'') (RAlt (lit ''twitter.com'')
       (RAlt (lit ''x.com'') (RAlt (lit ''instagram.com'') (RAlt (lit ''linkedin.com'')
         (lit ''youtube.com'')))))))"

definition iconLinkRe :: re where
  "iconLinkRe = seqs
     [lit ''<link'', rplus rNotGt, lit ''rel='', rQuote,
      RGroup 1 (RAlt (lit ''icon'') (lit ''shortcut icon'')), rQuote, rstar rNotGt, lit ''>'']"

definition faviconRe :: re where
  "faviconRe = seqs [lit ''/favicon.ico'', RWordB]"

definition manifestRe :: re where
  "manifestRe = seqs
     [lit ''<link'', rplus rNotGt, lit ''rel='', rQuote, lit ''manifest'', rQuote, rstar rNotGt,
      lit ''>'']"

definition charsetRe :: re where
  "charsetRe = seqs [lit ''<meta'', rplus rNotGt, lit ''charset='']"

definition htmlLangRe :: re where
  "htmlLangRe = seqs
     [lit ''<html'', rplus rNotGt, lit ''lang='', RGroup 1 (RAlt (lit [dq]) (lit [sq])),
      rplus (rcls (\<lambda>c. isLower c \<or> c = CHR ''-''))]"

subsection \<open>The measurements\<close>

definition textNoTags :: "string \<Rightarrow> string" where
  "textNoTags html = replaceAll True styleRe [] (replaceAll True scriptRe [] html)"

definition titleOf :: "string \<Rightarrow> string" where
  "titleOf html = (case exec True titleRe html of None \<Rightarrow> [] | Some m \<Rightarrow> trim (cap m 1))"

definition hMatches :: "string \<Rightarrow> string list" where
  "hMatches html = map (\<lambda>m. toUpperCase (cap m 1)) (matchAll True headingRe html)"

text \<open>\<^verbatim>\<open>parseInt(arr[i].slice(1)) - parseInt(arr[i-1].slice(1)) <= 1\<close>; a comparison with
  \<^verbatim>\<open>NaN\<close> is false.\<close>

definition stepOk :: "string \<Rightarrow> string \<Rightarrow> bool" where
  "stepOk prev cur =
     (case (parseInt (drop 1 cur), parseInt (drop 1 prev)) of
        (Some a, Some b) \<Rightarrow> a - b \<le> 1
      | _ \<Rightarrow> False)"

fun hierarchyOk :: "string list \<Rightarrow> bool" where
  "hierarchyOk (a # b # hs) = (stepOk a b \<and> hierarchyOk (b # hs))"
| "hierarchyOk hs = True"

definition canonicalOf :: "string \<Rightarrow> string" where
  "canonicalOf html = groupOr (exec True canonicalRe html) 1"

definition ogRequired :: "string list" where
  "ogRequired = [''og:title'', ''og:description'', ''og:image'']"

definition missingOg :: "string \<Rightarrow> string list" where
  "missingOg html = filter (\<lambda>p. \<not> test True (ogRe p) html) ogRequired"

definition httpAssets :: "string \<Rightarrow> nat" where
  "httpAssets html = countMatches True srcHttpRe html + countMatches True hrefHttpRe html"

definition imgTags :: "string \<Rightarrow> string list" where
  "imgTags html = map matched (matchAll True imgRe html)"

definition missingRatio :: "string list \<Rightarrow> real" where
  "missingRatio tags =
     (if length tags \<noteq> 0
      then real (length (filter (\<lambda>t. \<not> test False altRe t) tags)) / real (length tags)
      else 0)"

definition lazyRatio :: "string list \<Rightarrow> real" where
  "lazyRatio tags =
     (if length tags \<noteq> 0
      then real (length (filter (\<lambda>t. test False lazyRe t) tags)) / real (length tags)
      else 0)"

definition isDescriptive :: "string \<Rightarrow> bool" where
  "isDescriptive t =
     (let src = groupOr (exec False srcRe t) 1;
          fn = last (splitOn CHR ''/'' src)
      in test False (rcls isAlpha) fn \<and> \<not> test True cameraRe fn \<and> \<not> test True imageNRe fn)"

definition descRatio :: "string list \<Rightarrow> real" where
  "descRatio tags =
     (if length tags \<noteq> 0
      then real (length (filter isDescriptive tags)) / real (length tags)
      else 1)"

text \<open>The anchors as \<open>(href, text)\<close>, those of the page's own origin, and the diversity of
  their texts.\<close>

definition links :: "string \<Rightarrow> (string \<times> string) list" where
  "links html =
     map (\<lambda>m. (cap m 1, trim (replaceAll False anyTagRe [] (cap m 2))))
       (matchAll True anchorRe html)"

definition internal :: "URL \<Rightarrow> string \<Rightarrow> (string \<times> string) list" where
  "internal base html =
     filter (\<lambda>l. resolveOrigin (fst l) base = Some (origin base)) (links html)"

definition anchorTexts :: "(string \<times> string) list \<Rightarrow> string list" where
  "anchorTexts ls = filter (\<lambda>t. t \<noteq> []) (map (\<lambda>l. toLowerCase (snd l)) ls)"

definition anchorDiversity :: "string list \<Rightarrow> real" where
  "anchorDiversity texts =
     (if length texts \<noteq> 0 then real (length (remdups texts)) / real (length texts) else 1)"

definition dateMeta :: "string \<Rightarrow> string" where
  "dateMeta html = groupOr (exec True dateMetaRe html) 2"

definition timeTag :: "string \<Rightarrow> string" where
  "timeTag html = groupOr (exec True timeTagRe html) 1"

definition wordCount :: "string \<Rightarrow> nat" where
  "wordCount html =
     (let bodyText = trim (replaceAll False spacesRe '' ''
                            (replaceAll False tagRe '' '' (textNoTags html)))
      in length (filter (\<lambda>w. w \<noteq> []) (splitOn CHR '' '' bodyText)))"

definition hasTel :: "string \<Rightarrow> bool" where
  "hasTel html = (test True telRe html \<or> test True telephoneRe html)"

definition hasFavicon :: "string \<Rightarrow> bool" where
  "hasFavicon html = (test True iconLinkRe html \<or> test True faviconRe html)"

subsection \<open>The issues\<close>

definition titleIssue :: "string \<Rightarrow> string \<Rightarrow> Issue" where
  "titleIssue html url =
     (let title = titleOf html; tl = length title
      in \<lparr>issue_id = ''title_tag'',
          status = (if tl \<ge> 15 \<and> tl \<le> 60 then Pass
                    else if tl \<ge> 8 \<and> tl \<le> 70 then Warn else Fail),
          details = Some [(''length'', DNum (real tl)), (''title'', DStr title)],
          fixtext = ''Craft unique, descriptive titles ('' @ [CHR 0xE2, CHR 0x89, CHR 0xA4]
                    @ ''60 chars).'',
          page = url, category = ''onpage_seo''\<rparr>)"

definition metaDescriptionIssue :: "string \<Rightarrow> string \<Rightarrow> Issue" where
  "metaDescriptionIssue html url =
     (let md = groupOr (exec True (metaContentRe ''description'') html) 1;
          mdl = length (trim md)
      in \<lparr>issue_id = ''meta_description'',
          status = (if mdl = 0 then Fail else if mdl < 70 \<or> mdl > 160 then Warn else Pass),
          details = Some [(''length'', DNum (real mdl))],
          fixtext = ''Write ~150-char descriptions matching intent.'',
          page = url, category = ''onpage_seo''\<rparr>)"

definition viewportIssue :: "string \<Rightarrow> string \<Rightarrow> Issue" where
  "viewportIssue html url =
     \<lparr>issue_id = ''viewport_meta'',
      status = (if test True viewportRe html then Pass else Fail),
      details = None,
      fixtext = ''Add responsive viewport meta tag.'',
      page = url, category = ''technical_seo''\<rparr>"

definition h1Issue :: "string \<Rightarrow> string \<Rightarrow> Issue" where
  "h1Issue html url =
     (let h1Count = length (filter (\<lambda>h. h = ''H1'') (hMatches html))
      in \<lparr>issue_id = ''h1_tag'',
          status = (if h1Count = 1 then Pass else if h1Count = 0 then Fail else Warn),
          details = Some [(''h1Count'', DNum (real h1Count))],
          fixtext = ''Use exactly one H1.'',
          page = url, category = ''onpage_seo''\<rparr>)"

definition headingHierarchyIssue :: "string \<Rightarrow> string \<Rightarrow> Issue" where
  "headingHierarchyIssue html url =
     \<lparr>issue_id = ''heading_hierarchy'',
      status = (if hierarchyOk (hMatches html) then Pass else Warn),
      details = Some [(''order'', DList (hMatches html))],
      fixtext = ''Follow logical H2/H3 progression.'',
      page = url, category = ''onpage_seo''\<rparr>"

definition canonicalIssue :: "string \<Rightarrow> string \<Rightarrow> Issue" where
  "canonicalIssue html url =
     (let canonical = canonicalOf html
      in \<lparr>issue_id = ''canonical_tag'',
          status = (if canonical = [] then Warn
                    else if startsWith canonical url then Pass else Warn),
          details = Some [(''canonical'', DStr canonical)],
          fixtext = ''Add self-referencing canonical.'',
          page = url, category = ''technical_seo''\<rparr>)"

definition robotsIssue :: "string \<Rightarrow> (string \<rightharpoonup> string) \<Rightarrow> string \<Rightarrow> Issue" where
  "robotsIssue html headers url =
     (let robotsMeta = groupOr (exec True (metaContentRe ''robots'') html) 1;
          robotsHeader = (case headers ''x-robots-tag'' of None \<Rightarrow> [] | Some v \<Rightarrow> v)
      in \<lparr>issue_id = ''meta_robots'',
          status = (if test True forbids robotsMeta \<or> test True forbids robotsHeader
                    then Fail else Pass),
          details = Some [(''meta'', DStr robotsMeta), (''header'', DStr robotsHeader)],
          fixtext = ''Remove accidental noindex/nofollow.'',
          page = url, category = ''technical_seo''\<rparr>)"

definition openGraphIssue :: "string \<Rightarrow> string \<Rightarrow> Issue" where
  "openGraphIssue html url =
     (let missing = missingOg html
      in \<lparr>issue_id = ''open_graph'',
          status = (if length missing \<noteq> 0
                    then (if length missing = length ogRequired then Fail else Warn)
                    else Pass),
          details = Some [(''missing'', DList missing)],
          fixtext = ''Complete OG tags.'',
          page = url, category = ''entity_trust''\<rparr>)"

definition mixedContentIssue :: "string \<Rightarrow> string \<Rightarrow> Issue" where
  "mixedContentIssue html url =
     (let n = httpAssets html
      in \<lparr>issue_id = ''https_mixed_content'',
          status = (if n = 0 then Pass else if n < 3 then Warn else Fail),
          details = Some [(''httpAssets'', DNum (real n))],
          fixtext = ''Serve assets over HTTPS.'',
          page = url, category = ''technical_seo''\<rparr>)"

definition imageAltIssue :: "string \<Rightarrow> string \<Rightarrow> Issue" where
  "imageAltIssue html url =
     (let r = missingRatio (imgTags html)
      in \<lparr>issue_id = ''image_alt'',
          status = (if r \<le> 1 / 10 then Pass else if r \<le> 3 / 10 then Warn else Fail),
          details = Some [(''missingRatio'', DNum r)],
          fixtext = ''Add alt text to important images.'',
          page = url, category = ''onpage_seo''\<rparr>)"

definition imageLazyIssue :: "string \<Rightarrow> string \<Rightarrow> Issue" where
  "imageLazyIssue html url =
     (let r = lazyRatio (imgTags html)
      in \<lparr>issue_id = ''image_lazy'',
          status = (if r \<ge> 8 / 10 then Pass else if r \<ge> 5 / 10 then Warn else Fail),
          details = Some [(''lazyRatio'', DNum r)],
          fixtext = ''Add loading='' @ [dq] @ ''lazy'' @ [dq] @ '' to non-critical images.'',
          page = url, category = ''onpage_seo''\<rparr>)"

definition imageFilenameIssue :: "string \<Rightarrow> string \<Rightarrow> Issue" where
  "imageFilenameIssue html url =
     (let r = descRatio (imgTags html)
      in \<lparr>issue_id = ''image_filename'',
          status = (if r \<ge> 5 / 10 then Pass else if r \<ge> 3 / 10 then Warn else Fail),
          details = Some [(''descriptiveRatio'', DNum r)],
          fixtext = ''Use descriptive filenames (e.g., blue-widget.jpg).'',
          page = url, category = ''onpage_seo''\<rparr>)"

definition internalLinksIssue :: "URL \<Rightarrow> string \<Rightarrow> string \<Rightarrow> Issue" where
  "internalLinksIssue base html url =
     (let ls = internal base html;
          minLinks = length ls;
          diversity = anchorDiversity (anchorTexts ls)
      in \<lparr>issue_id = ''internal_links'',
          status = (if minLinks \<ge> 5 \<and> diversity \<ge> 4 / 10 then Pass
                    else if minLinks \<ge> 3 then Warn else Fail),
          details = Some [(''internalCount'', DNum (real minLinks)),
                          (''anchorDiversity'', DNum diversity)],
          fixtext = ''Add contextual internal links and diversify anchors.'',
          page = url, category = ''onpage_seo''\<rparr>)"

definition publishDateIssue :: "string \<Rightarrow> string \<Rightarrow> Issue" where
  "publishDateIssue html url =
     \<lparr>issue_id = ''publish_date'',
      status = (if dateMeta html \<noteq> [] \<or> timeTag html \<noteq> [] then Pass else Warn),
      details = Some [(''dateMeta'', DStr (dateMeta html)), (''timeTag'', DStr (timeTag html))],
      fixtext = ''Expose publish/updated dates on content pages.'',
      page = url, category = ''onpage_seo''\<rparr>"

definition wordCountIssue :: "string \<Rightarrow> string \<Rightarrow> Issue" where
  "wordCountIssue html url =
     (let words = wordCount html
      in \<lparr>issue_id = ''word_count'',
          status = (if words \<ge> 300 then Pass else if words \<ge> 200 then Warn else Fail),
          details = Some [(''words'', DNum (real words))],
          fixtext = ''Increase content depth; cover user questions and subtopics.'',
          page = url, category = ''onpage_seo''\<rparr>)"

definition entitySchemaIssue :: "string \<Rightarrow> string \<Rightarrow> Issue" where
  "entitySchemaIssue html url =
     \<lparr>issue_id = ''entity_schema_org'',
      status = (if test True orgSchemaRe html then Pass else Warn),
      details = None,
      fixtext = ''Add Organization/LocalBusiness JSON-LD.'',
      page = url, category = ''entity_trust''\<rparr>"

definition entityNapIssue :: "string \<Rightarrow> string \<Rightarrow> Issue" where
  "entityNapIssue html url =
     (let hasAddress = test True addressRe html
      in \<lparr>issue_id = ''entity_nap'',
          status = (if hasTel html \<or> hasAddress then Pass else Warn),
          details = Some [(''hasTel'', DBool (hasTel html)), (''hasAddress'', DBool hasAddress)],
          fixtext = ''Expose business phone and postal address (JSON-LD or visible).'',
          page = url, category = ''entity_trust''\<rparr>)"

definition entitySocialIssue :: "string \<Rightarrow> string \<Rightarrow> Issue" where
  "entitySocialIssue html url =
     \<lparr>issue_id = ''entity_social_profiles'',
      status = (if test True socialRe html then Pass else Warn),
      details = None,
      fixtext = ''Add sameAs links to major social profiles.'',
      page = url, category = ''entity_trust''\<rparr>"

definition faviconIssue :: "string \<Rightarrow> string \<Rightarrow> Issue" where
  "faviconIssue html url =
     \<lparr>issue_id = ''hygiene_favicon'',
      status = (if hasFavicon html then Pass else Warn),
      details = None,
      fixtext = ''Add <link rel='' @ [dq] @ ''icon'' @ [dq] @ ''> or /favicon.ico.'',
      page = url, category = ''hygiene''\<rparr>"

definition manifestIssue :: "string \<Rightarrow> string \<Rightarrow> Issue" where
  "manifestIssue html url =
     \<lparr>issue_id = ''hygiene_manifest'',
      status = (if test True manifestRe html then Pass else Warn),
      details = None,
      fixtext = ''Add a web app manifest (optional).'',
      page = url, category = ''hygiene''\<rparr>"

definition charsetIssue :: "string \<Rightarrow> string \<Rightarrow> Issue" where
  "charsetIssue html url =
     \<lparr>issue_id = ''hygiene_charset'',
      status = (if test True charsetRe html then Pass else Warn),
      details = None,
      fixtext = ''Add <meta charset='' @ [dq] @ ''utf-8'' @ [dq] @ ''> early in <head>.'',
      page = url, category = ''hygiene''\<rparr>"

definition htmlLangIssue :: "string \<Rightarrow> string \<Rightarrow> Issue" where
  "htmlLangIssue html url =
     \<lparr>issue_id = ''hygiene_html_lang'',
      status = (if test True htmlLangRe html then Pass else Warn),
      details = None,
      fixtext = ''Set <html lang='' @ [dq] @ ''en-GB'' @ [dq] @ ''> (or appropriate).'',
      page = url, category = ''hygiene''\<rparr>"

definition copyrightIssue :: "int \<Rightarrow> string \<Rightarrow> string \<Rightarrow> Issue" where
  "copyrightIssue THIS_YEAR html url =
     \<lparr>issue_id = ''hygiene_copyright_year'',
      status = (if test False (lit (decimal THIS_YEAR)) html then Pass else Warn),
      details = None,
      fixtext = ''Update footer copyright to '' @ decimal THIS_YEAR @ ''.'',
      page = url, category = ''hygiene''\<rparr>"

text \<open>
  \<^verbatim>\<open>evaluateHome(html, headers, url)\<close>, with the calendar year \<^verbatim>\<open>THIS_YEAR\<close> of the
  process as a parameter. The issues are pushed in this order; \<^verbatim>\<open>new URL(url)\<close> of the
  internal-links check is not guarded, so a \<open>url\<close> that does not parse makes the whole
  call throw.
\<close>

definition evaluateHome ::
  "int \<Rightarrow> string \<Rightarrow> (string \<rightharpoonup> string) \<Rightarrow> string \<Rightarrow> exn + Issue list" where
  "evaluateHome THIS_YEAR html headers url =
     (case parseURL url of
        None \<Rightarrow> Inl (TypeError ''Invalid URL'')
      | Some base \<Rightarrow>
          Inr [titleIssue html url, metaDescriptionIssue html url, viewportIssue html url,
               h1Issue html url, headingHierarchyIssue html url, canonicalIssue html url,
               robotsIssue html headers url, openGraphIssue html url,
               mixedContentIssue html url, imageAltIssue html url, imageLazyIssue html url,
               imageFilenameIssue html url, internalLinksIssue base html url,
               publishDateIssue html url, wordCountIssue html url, entitySchemaIssue html url,
               entityNapIssue html url, entitySocialIssue html url, faviconIssue html url,
               manifestIssue html url, charsetIssue html url, htmlLangIssue html url,
               copyrightIssue THIS_YEAR html url])"

section \<open>Scoring\<close>

record CategoryScore =
  cat_id :: string
  score :: int
  weighted :: int

record Scored =
  overall :: int
  grade :: string
  categories :: "CategoryScore list"

text \<open>\<^verbatim>\<open>Math.round\<close>: the nearest integer, a tie going towards plus infinity.\<close>

definition Math_round :: "real \<Rightarrow> int" where
  "Math_round x = \<lfloor>x + 1 / 2\<rfloor>"

fun statusToScore :: "status \<Rightarrow> real" where
  "statusToScore Pass = 1"
| "statusToScore Warn = 1 / 2"
| "statusToScore Fail = 0"

definition weights :: "(string \<times> (string \<times> real) list) list" where
  "weights =
    [(''technical_seo'',
        [(''viewport_meta'', 2), (''meta_robots'', 4), (''canonical_tag'', 4),
         (''https_mixed_content'', 3)]),
     (''onpage_seo'',
        [(''title_tag'', 6), (''meta_description'', 4), (''h1_tag'', 4),
         (''heading_hierarchy'', 2), (''image_alt'', 3), (''image_lazy'', 2),
         (''image_filename'', 1), (''internal_links'', 5), (''word_count'', 3),
         (''publish_date'', 2)]),
     (''entity_trust'',
        [(''open_graph'', 2), (''entity_schema_org'', 4), (''entity_nap'', 3),
         (''entity_social_profiles'', 1)]),
     (''hygiene'',
        [(''hygiene_favicon'', 1), (''hygiene_manifest'', 1), (''hygiene_charset'', 2),
         (''hygiene_html_lang'', 2), (''hygiene_copyright_year'', 1)])]"

definition overallWeights :: "(string \<times> real) list" where
  "overallWeights =
    [(''technical_seo'', 35), (''onpage_seo'', 35), (''entity_trust'', 20), (''hygiene'', 10)]"

text \<open>\<^verbatim>\<open>new Map(issues.map(i => [i.id, i]))\<close>: a later entry replaces an earlier one
  with the same key.\<close>

definition byId :: "Issue list \<Rightarrow> (string \<rightharpoonup> Issue)" where
  "byId issues = foldl (\<lambda>m i. m(issue_id i \<mapsto> i)) Map.empty issues"

text \<open>\<^verbatim>\<open>byId.get(id)?.status || 'fail'\<close>\<close>

definition statusOr :: "(string \<rightharpoonup> Issue) \<Rightarrow> string \<Rightarrow> status" where
  "statusOr m cid = (case m cid of None \<Rightarrow> Fail | Some i \<Rightarrow> status i)"

text \<open>The body of the loop over the categories: the state is the running \<^verbatim>\<open>overall\<close>
  and the list \<^verbatim>\<open>out\<close>.\<close>

definition scoreStep ::
  "(string \<rightharpoonup> Issue) \<Rightarrow> real \<times> CategoryScore list \<Rightarrow> string \<times> real
    \<Rightarrow> real \<times> CategoryScore list" where
  "scoreStep m st c =
    (let entries = (case map_of weights (fst c) of None \<Rightarrow> [] | Some es \<Rightarrow> es);
         s0 = foldl (\<lambda>s e. s + snd e) 0 entries;
         sumW = (if s0 = 0 then 1 else s0);
         raw = foldl (\<lambda>s e. s + statusToScore (statusOr m (fst e)) * snd e) 0 entries;
         pct = (raw / sumW) * 100;
         wgt = pct * (snd c / 100)
     in (fst st + wgt,
         snd st @ [\<lparr>cat_id = fst c, score = Math_round pct, weighted = Math_round wgt\<rparr>]))"

definition gradeOf :: "real \<Rightarrow> string" where
  "gradeOf x =
    (if x \<ge> 90 then ''A'' else if x \<ge> 80 then ''B'' else if x \<ge> 70 then ''C''
     else if x \<ge> 60 then ''D'' else ''F'')"

definition scoreCategories :: "Issue list \<Rightarrow> Scored" where
  "scoreCategories issues =
    (let st = foldl (scoreStep (byId issues)) (0, []) overallWeights
     in \<lparr>overall = Math_round (fst st), grade = gradeOf (fst st), categories = snd st\<rparr>)"

subsection \<open>The scoring rule in the words of the specification\<close>

definition statusValue :: "status \<Rightarrow> real" where
  "statusValue s = (case s of Pass \<Rightarrow> 1 | Warn \<Rightarrow> 1 / 2 | Fail \<Rightarrow> 0)"

text \<open>The value of a check: that of the issue carrying its id (the last one, should the
  list repeat an id), and that of a failure when no issue carries it.\<close>

definition checkValue :: "Issue list \<Rightarrow> string \<Rightarrow> real" where
  "checkValue issues cid =
    (case find (\<lambda>i. issue_id i = cid) (rev issues) of
       None \<Rightarrow> statusValue Fail | Some i \<Rightarrow> statusValue (status i))"

definition categoryPct :: "Issue list \<Rightarrow> (string \<times> real) list \<Rightarrow> real" where
  "categoryPct issues wmap =
    100 * (\<Sum>e\<leftarrow>wmap. snd e * checkValue issues (fst e)) / (\<Sum>e\<leftarrow>wmap. snd e)"

definition weightsOf :: "string \<Rightarrow> (string \<times> real) list" where
  "weightsOf cat = (case map_of weights cat of None \<Rightarrow> [] | Some es \<Rightarrow> es)"

definition overallExact :: "Issue list \<Rightarrow> real" where
  "overallExact issues =
     categoryPct issues (weightsOf ''technical_seo'') * (35 / 100)
   + categoryPct issues (weightsOf ''onpage_seo'') * (35 / 100)
   + categoryPct issues (weightsOf ''entity_trust'') * (20 / 100)
   + categoryPct issues (weightsOf ''hygiene'') * (10 / 100)"

subsection \<open>The check catalogue and sample issue lists\<close>

text \<open>The 23 check ids of the catalogue with their categories, in the order in which the
  home-page evaluator emits them.\<close>

definition catalogue :: "(string \<times> string) list" where
  "catalogue =
    [(''title_tag'', ''onpage_seo''), (''meta_description'', ''onpage_seo''),
     (''viewport_meta'', ''technical_seo''), (''h1_tag'', ''onpage_seo''),
     (''heading_hierarchy'', ''onpage_seo''), (''canonical_tag'', ''technical_seo''),
     (''meta_robots'', ''technical_seo''), (''open_graph'', ''entity_trust''),
     (''https_mixed_content'', ''technical_seo''), (''image_alt'', ''onpage_seo''),
     (''image_lazy'', ''onpage_seo''), (''image_filename'', ''onpage_seo''),
     (''internal_links'', ''onpage_seo''), (''publish_date'', ''onpage_seo''),
     (''word_count'', ''onpage_seo''), (''entity_schema_org'', ''entity_trust''),
     (''entity_nap'', ''entity_trust''), (''entity_social_profiles'', ''entity_trust''),
     (''hygiene_favicon'', ''hygiene''), (''hygiene_manifest'', ''hygiene''),
     (''hygiene_charset'', ''hygiene''), (''hygiene_html_lang'', ''hygiene''),
     (''hygiene_copyright_year'', ''hygiene'')]"

definition issuesWith :: "(string \<Rightarrow> status) \<Rightarrow> Issue list" where
  "issuesWith f =
    map (\<lambda>c. \<lparr>issue_id = fst c, status = f (fst c), details = None, fixtext = [],
                page = ''https://example.com/'', category = snd c\<rparr>) catalogue"

definition allPassExcept :: "(string \<times> status) list \<Rightarrow> Issue list" where
  "allPassExcept ex = issuesWith (\<lambda>i. case map_of ex i of None \<Rightarrow> Pass | Some s \<Rightarrow> s)"

definition differOnlyAt :: "string \<Rightarrow> Issue list \<Rightarrow> Issue list \<Rightarrow> bool" where
  "differOnlyAt k xs ys =
    list_all2 (\<lambda>x y. if issue_id x = k then (\<exists>s. y = x\<lparr>status := s\<rparr>) else y = x) xs ys"

definition gradeGapIssues :: "Issue list" where
  "gradeGapIssues =
     allPassExcept [(''title_tag'', Fail), (''word_count'', Fail), (''image_filename'', Warn)]"


definition twoFailures :: "Issue list" where
  "twoFailures = allPassExcept [(''title_tag'', Fail), (''meta_description'', Fail)]"


section \<open>The request handler\<close>

text \<open>\<^verbatim>\<open>normaliseOrigin\<close>: both \<^verbatim>\<open>new URL\<close> calls throw a \<^verbatim>\<open>TypeError\<close> on a text
  that does not parse.\<close>

definition normaliseOrigin :: "string \<Rightarrow> exn + string" where
  "normaliseOrigin input =
     (case parseURL (if startsWith input ''http'' then input else ''https://'' @ input) of
        None \<Rightarrow> Inl (TypeError ''Invalid URL'')
      | Some u \<Rightarrow>
          (case parseURL (origin u) of
             None \<Rightarrow> Inl (TypeError ''Invalid URL'')
           | Some v \<Rightarrow> Inr (href v)))"

text \<open>\<^verbatim>\<open>[...new Set(arr)]\<close>: the distinct elements in the order of their first
  occurrence.\<close>

definition unique :: "'a list \<Rightarrow> 'a list" where
  "unique arr = foldl (\<lambda>acc x. if x \<in> set acc then acc else acc @ [x]) [] arr"

text \<open>Applying a function that may throw to the elements of a list, left to right.\<close>

fun mapM :: "('a \<Rightarrow> exn + 'b) \<Rightarrow> 'a list \<Rightarrow> exn + 'b list" where
  "mapM f [] = Inr []"
| "mapM f (x # xs) =
     (case f x of
        Inl e \<Rightarrow> Inl e
      | Inr y \<Rightarrow> (case mapM f xs of Inl e \<Rightarrow> Inl e | Inr ys \<Rightarrow> Inr (y # ys)))"

text \<open>\<^verbatim>\<open>normaliseOrigin\<close> on a value of the request body: reading \<^verbatim>\<open>startsWith\<close> of
  \<^verbatim>\<open>undefined\<close> or \<^verbatim>\<open>null\<close> throws a \<^verbatim>\<open>TypeError\<close>, and so does calling it on a
  value that is not a string.\<close>

definition normaliseValue :: "json option \<Rightarrow> exn + string" where
  "normaliseValue v =
     (case v of
        None \<Rightarrow> Inl (TypeError (''Cannot read properties of undefined (reading '' @ [sq]
                 @ ''startsWith'' @ [sq] @ '')''))
      | Some JNull \<Rightarrow> Inl (TypeError (''Cannot read properties of null (reading '' @ [sq]
                 @ ''startsWith'' @ [sq] @ '')''))
      | Some (JStr s) \<Rightarrow> normaliseOrigin s
      | Some _ \<Rightarrow> Inl (TypeError ''input.startsWith is not a function''))"

text \<open>The body of a response: one result, a list of results, or an error message.\<close>

datatype 'r body = Single 'r | Many "'r list" | Failure string

record 'r Response =
  body :: "'r body"
  http_status :: nat

definition message :: "exn \<Rightarrow> string" where
  "message e = (case e of TypeError m \<Rightarrow> m | Error m \<Rightarrow> m)"

text \<open>The first two statements of \<^verbatim>\<open>POST\<close>: the origins of the \<^verbatim>\<open>url\<close> field of the
  parsed request body (\<open>None\<close> when the field is missing), normalised, without empty
  texts and duplicates, cut to ten.\<close>

definition originList :: "json option \<Rightarrow> exn + string list" where
  "originList input =
     (case (case input of
              Some (JArr xs) \<Rightarrow> mapM (\<lambda>x. normaliseValue (Some x)) xs
            | _ \<Rightarrow> mapM normaliseValue [input]) of
        Inl e \<Rightarrow> Inl e
      | Inr list \<Rightarrow> Inr (take 10 (unique (filter (\<lambda>s. s \<noteq> []) list))))"

text \<open>
  \<^verbatim>\<open>POST\<close>. The audit of one origin goes to the network; it is the parameter
  \<open>auditOne\<close>, which returns a result or throws. Whatever is thrown is answered with
  status 500; of several failing audits the first in the list gives the message. The optional webhook call has no effect on the response and is left out.
\<close>

definition failed :: "exn \<Rightarrow> 'r Response" where
  "failed e =
     \<lparr>body = Failure (if message e = [] then ''Unexpected error'' else message e),
      http_status = 500\<rparr>"

definition POST :: "(string \<Rightarrow> exn + 'r) \<Rightarrow> json option \<Rightarrow> 'r Response" where
  "POST auditOne input =
     (case originList input of
        Inl e \<Rightarrow> failed e
      | Inr dedup \<Rightarrow>
          (case mapM auditOne dedup of
             Inl e \<Rightarrow> failed e
           | Inr results \<Rightarrow>
               \<lparr>body = (if length results = 1 then Single (results ! 0) else Many results),
                http_status = 200\<rparr>))"

section \<open>The specification's words, and sample inputs\<close>



text \<open>The records of one parsed structured-data block: the elements of a list, the value
  itself otherwise.\<close>

definition recordsOf :: "json \<Rightarrow> json list" where
  "recordsOf j = (case j of JArr xs \<Rightarrow> xs | _ \<Rightarrow> [j])"



definition samplePage :: string where
  "samplePage = ''<title>An example page title</title><h1>Hi</h1><p>No pictures here</p>''"

definition twoBlocks :: string where
  "twoBlocks =
     ''<script type='' @ [dq] @ ''application/ld+json'' @ [dq] @ ''> {bad </script>''
     @ ''<p>x</p><script type='' @ [dq] @ ''application/ld+json'' @ [dq] @ ''>{}</script>''"

definition parsesEmptyObject :: platform where
  "parsesEmptyObject =
     \<lparr>JSON_parse = (\<lambda>s. if s = ''{}'' then Some (JObj []) else None),
      Number_toString = (\<lambda>n. [])\<rparr>"


section \<open>Properties of the scoring engine\<close>

lemma find_app:
  "find P (xs @ ys) = (case find P xs of None \<Rightarrow> find P ys | Some x \<Rightarrow> Some x)"
  by (induction xs) simp_all

lemma byId_find: "byId issues cid = find (\<lambda>i. issue_id i = cid) (rev issues)"
proof -
  have "foldl (\<lambda>m i. m(issue_id i \<mapsto> i)) m0 issues cid =
        (case find (\<lambda>i. issue_id i = cid) (rev issues) of None \<Rightarrow> m0 cid | Some i \<Rightarrow> Some i)"
    for m0
    by (induction issues arbitrary: m0) (auto simp: find_app split: option.splits)
  then show ?thesis by (simp add: byId_def split: option.splits)
qed

lemma statusOr_value: "statusToScore (statusOr (byId issues) cid) = checkValue issues cid"
  by (simp add: statusOr_def checkValue_def byId_find statusValue_def
      split: option.splits status.splits)

lemma foldl_plus_sum_list: "foldl (\<lambda>s e. s + f e) a es = a + (\<Sum>e\<leftarrow>es. (f e :: real))"
  by (induction es arbitrary: a) (simp_all add: add.assoc)

lemma scoreStep_eq:
  assumes "(\<Sum>e\<leftarrow>weightsOf (fst c). snd e) \<noteq> 0"
  shows "scoreStep (byId issues) st c =
    (fst st + categoryPct issues (weightsOf (fst c)) * (snd c / 100),
     snd st @ [\<lparr>cat_id = fst c,
        score = Math_round (categoryPct issues (weightsOf (fst c))),
        weighted = Math_round (categoryPct issues (weightsOf (fst c)) * (snd c / 100))\<rparr>])"
  using assms
  by (simp add: scoreStep_def Let_def foldl_plus_sum_list statusOr_value categoryPct_def
      weightsOf_def mult.commute)

lemma weightsOf_simps:
  "weightsOf ''technical_seo'' =
     [(''viewport_meta'', 2), (''meta_robots'', 4), (''canonical_tag'', 4),
      (''https_mixed_content'', 3)]"
  "weightsOf ''onpage_seo'' =
     [(''title_tag'', 6), (''meta_description'', 4), (''h1_tag'', 4),
      (''heading_hierarchy'', 2), (''image_alt'', 3), (''image_lazy'', 2),
      (''image_filename'', 1), (''internal_links'', 5), (''word_count'', 3),
      (''publish_date'', 2)]"
  "weightsOf ''entity_trust'' =
     [(''open_graph'', 2), (''entity_schema_org'', 4), (''entity_nap'', 3),
      (''entity_social_profiles'', 1)]"
  "weightsOf ''hygiene'' =
     [(''hygiene_favicon'', 1), (''hygiene_manifest'', 1), (''hygiene_charset'', 2),
      (''hygiene_html_lang'', 2), (''hygiene_copyright_year'', 1)]"
  by (simp_all add: weightsOf_def weights_def)

lemma scoreCategories_eq:
  "scoreCategories issues =
    \<lparr>overall = Math_round (overallExact issues),
     grade = gradeOf (overallExact issues),
     categories =
       [\<lparr>cat_id = ''technical_seo'',
          score = Math_round (categoryPct issues (weightsOf ''technical_seo'')),
          weighted = Math_round (categoryPct issues (weightsOf ''technical_seo'') * (35 / 100))\<rparr>,
        \<lparr>cat_id = ''onpage_seo'',
          score = Math_round (categoryPct issues (weightsOf ''onpage_seo'')),
          weighted = Math_round (categoryPct issues (weightsOf ''onpage_seo'') * (35 / 100))\<rparr>,
        \<lparr>cat_id = ''entity_trust'',
          score = Math_round (categoryPct issues (weightsOf ''entity_trust'')),
          weighted = Math_round (categoryPct issues (weightsOf ''entity_trust'') * (20 / 100))\<rparr>,
        \<lparr>cat_id = ''hygiene'',
          score = Math_round (categoryPct issues (weightsOf ''hygiene'')),
          weighted = Math_round (categoryPct issues (weightsOf ''hygiene'') * (10 / 100))\<rparr>]\<rparr>"
proof -
  have nz: "(\<Sum>e\<leftarrow>weightsOf ''technical_seo''. snd e) \<noteq> 0"
    "(\<Sum>e\<leftarrow>weightsOf ''onpage_seo''. snd e) \<noteq> 0"
    "(\<Sum>e\<leftarrow>weightsOf ''entity_trust''. snd e) \<noteq> 0"
    "(\<Sum>e\<leftarrow>weightsOf ''hygiene''. snd e) \<noteq> 0"
    by (simp_all add: weightsOf_simps)
  have step: "scoreStep (byId issues) st (c, w) =
      (fst st + categoryPct issues (weightsOf c) * (w / 100),
       snd st @ [\<lparr>cat_id = c, score = Math_round (categoryPct issues (weightsOf c)),
          weighted = Math_round (categoryPct issues (weightsOf c) * (w / 100))\<rparr>])"
    if "(\<Sum>e\<leftarrow>weightsOf c. snd e) \<noteq> 0" for st c w
    using scoreStep_eq [of "(c, w)" issues st] that by simp
  show ?thesis
    by (simp add: scoreCategories_def overallWeights_def Let_def step nz overallExact_def)
qed


lemma find_rev_differ:
  assumes "list_all2 (\<lambda>x y. if issue_id x = k then (\<exists>s. y = x\<lparr>status := s\<rparr>) else y = x) xs ys"
    and "cid \<noteq> k"
  shows "find (\<lambda>i. issue_id i = cid) xs = find (\<lambda>i. issue_id i = cid) ys"
  using assms
proof (induction xs ys rule: list_all2_induct)
  case Nil
  then show ?case by simp
next
  case (Cons x xs y ys)
  from Cons.hyps(1) have "issue_id y = issue_id x"
    by (cases "issue_id x = k") auto
  moreover from Cons.hyps(1) Cons.prems have "issue_id x = cid \<Longrightarrow> y = x"
    by (cases "issue_id x = k") auto
  ultimately show ?case using Cons.IH Cons.prems by auto
qed

lemma checkValue_differ:
  assumes "differOnlyAt k xs ys" and "cid \<noteq> k"
  shows "checkValue xs cid = checkValue ys cid"
proof -
  from assms(1) have "list_all2 (\<lambda>x y. if issue_id x = k then (\<exists>s. y = x\<lparr>status := s\<rparr>) else y = x)
      (rev xs) (rev ys)"
    unfolding differOnlyAt_def by (simp add: list_all2_rev)
  from find_rev_differ [OF this assms(2)] show ?thesis by (simp add: checkValue_def)
qed

lemma categoryPct_differ:
  assumes "differOnlyAt k xs ys" and "k \<notin> fst ` set w"
  shows "categoryPct xs w = categoryPct ys w"
proof -
  have "map (\<lambda>e. snd e * checkValue xs (fst e)) w = map (\<lambda>e. snd e * checkValue ys (fst e)) w"
  proof (rule map_cong [OF refl])
    fix e assume "e \<in> set w"
    with assms(2) have "fst e \<noteq> k" by auto
    from checkValue_differ [OF assms(1) this]
    show "snd e * checkValue xs (fst e) = snd e * checkValue ys (fst e)" by simp
  qed
  then show ?thesis by (simp only: categoryPct_def)
qed

subsection \<open>Claims about the scoring engine\<close>

text \<open>
  \<^bold>\<open>C1.\<close> For every issue list, each category's score is
  \<open>round (100 * (\<Sum> weight * statusValue) / (\<Sum> weight))\<close> over that category's fixed
  weight map, where a check counts 1 for pass, 1/2 for warn, 0 for fail and 0 when no issue
  carries its id; the overall score is the rounded sum of the (unrounded) category
  percentages multiplied by the shares 35, 35, 20 and 10 per cent.
\<close>

theorem scoreCategories_formula:
  "map (\<lambda>c. (cat_id c, score c)) (categories (scoreCategories issues)) =
     [(''technical_seo'', round (categoryPct issues (weightsOf ''technical_seo''))),
      (''onpage_seo'', round (categoryPct issues (weightsOf ''onpage_seo''))),
      (''entity_trust'', round (categoryPct issues (weightsOf ''entity_trust''))),
      (''hygiene'', round (categoryPct issues (weightsOf ''hygiene'')))]
   \<and> overall (scoreCategories issues) =
       round (categoryPct issues (weightsOf ''technical_seo'') * (35 / 100)
            + categoryPct issues (weightsOf ''onpage_seo'') * (35 / 100)
            + categoryPct issues (weightsOf ''entity_trust'') * (20 / 100)
            + categoryPct issues (weightsOf ''hygiene'') * (10 / 100))"
  by (simp add: scoreCategories_eq Math_round_def round_def overallExact_def)

theorem scoreCategories_formula_witness:
  "map (\<lambda>c. (cat_id c, score c)) (categories (scoreCategories gradeGapIssues)) =
     [(''technical_seo'', 100), (''onpage_seo'', 70), (''entity_trust'', 100), (''hygiene'', 100)]
   \<and> overall (scoreCategories gradeGapIssues) = 90"
proof -
  have "round (categoryPct gradeGapIssues (weightsOf ''technical_seo'')) = 100"
    "round (categoryPct gradeGapIssues (weightsOf ''onpage_seo'')) = 70"
    "round (categoryPct gradeGapIssues (weightsOf ''entity_trust'')) = 100"
    "round (categoryPct gradeGapIssues (weightsOf ''hygiene'')) = 100"
    "round (categoryPct gradeGapIssues (weightsOf ''technical_seo'') * (35 / 100)
            + categoryPct gradeGapIssues (weightsOf ''onpage_seo'') * (35 / 100)
            + categoryPct gradeGapIssues (weightsOf ''entity_trust'') * (20 / 100)
            + categoryPct gradeGapIssues (weightsOf ''hygiene'') * (10 / 100)) = 90"
    by code_simp+
  with scoreCategories_formula [of gradeGapIssues] show ?thesis by simp
qed


text \<open>
  \<^bold>\<open>C2\<close> as stated fails: the grade is taken from the overall sum \<^emph>\<open>before\<close> it is
  rounded. With \<open>title_tag\<close> and \<open>word_count\<close> failing and \<open>image_filename\<close> warning
  the exact overall is \<open>5735 / 64 = 89.609375\<close>: the returned overall is 90, the grade B.
\<close>

theorem grade_not_from_rounded_overall:
  "overall (scoreCategories gradeGapIssues) = 90
   \<and> grade (scoreCategories gradeGapIssues) = ''B''"
  by code_simp


text \<open>
  \<^bold>\<open>C2, amended.\<close> For every issue list the grade follows from the exact (unrounded)
  overall sum by the thresholds 90, 80, 70, 60, and the returned overall is that sum rounded.
  Hence a returned overall of 89 always yields B, and a returned overall of 90 yields A
  exactly when the exact sum has reached 90, and B otherwise.
\<close>

theorem grade_from_exact_overall:
  "grade (scoreCategories issues) =
     (if 90 \<le> overallExact issues then ''A'' else if 80 \<le> overallExact issues then ''B''
      else if 70 \<le> overallExact issues then ''C'' else if 60 \<le> overallExact issues then ''D''
      else ''F'')
   \<and> overall (scoreCategories issues) = round (overallExact issues)
   \<and> (overall (scoreCategories issues) = 89 \<longrightarrow> grade (scoreCategories issues) = ''B'')
   \<and> (overall (scoreCategories issues) = 90 \<longrightarrow>
        grade (scoreCategories issues) = (if 90 \<le> overallExact issues then ''A'' else ''B''))"
proof -
  have r: "overall (scoreCategories issues) = round (overallExact issues)"
    by (simp add: scoreCategories_eq Math_round_def round_def)
  have g: "grade (scoreCategories issues) = gradeOf (overallExact issues)"
    by (simp add: scoreCategories_eq)
  have b89: "gradeOf x = ''B''" if "round x = (89::int)" for x
  proof -
    from that have "89 \<le> x + 1 / 2" "x + 1 / 2 < 90"
      unfolding round_def by linarith+
    then show ?thesis by (simp add: gradeOf_def)
  qed
  have b90: "gradeOf x = (if 90 \<le> x then ''A'' else ''B'')" if "round x = (90::int)" for x
  proof -
    from that have "90 \<le> x + 1 / 2" "x + 1 / 2 < 91"
      unfolding round_def by linarith+
    then show ?thesis by (simp add: gradeOf_def)
  qed
  show ?thesis using r g b89 b90 by (simp add: gradeOf_def)
qed

theorem grade_from_exact_overall_witness:
  "overall (scoreCategories twoFailures) = 89 \<and> grade (scoreCategories twoFailures) = ''B''"
proof -
  have "overall (scoreCategories twoFailures) = 89" by code_simp
  with grade_from_exact_overall [of twoFailures] show ?thesis by blast
qed


text \<open>
  \<^bold>\<open>C4.\<close> When two issue lists differ only in the status of the issues carrying one
  check id \<open>k\<close>, the two outputs list the same categories in the same order, and the entry
  (score and weighted contribution) of every category whose weight map does not contain
  \<open>k\<close> is identical in both; no check id occurs in two weight maps, so at most one
  category's entry can change.
\<close>

theorem scoreCategories_frame:
  assumes "differOnlyAt k xs ys"
  shows "list_all2 (\<lambda>a b. cat_id a = cat_id b \<and>
            (k \<notin> fst ` set (weightsOf (cat_id a)) \<longrightarrow> a = b))
          (categories (scoreCategories xs)) (categories (scoreCategories ys))
       \<and> distinct (concat (map (\<lambda>c. map fst (snd c)) weights))"
proof -
  note eq = categoryPct_differ [OF assms]
  have "distinct (concat (map (\<lambda>c. map fst (snd c)) weights))"
    by (simp add: weights_def)
  moreover have "list_all2 (\<lambda>a b. cat_id a = cat_id b \<and>
            (k \<notin> fst ` set (weightsOf (cat_id a)) \<longrightarrow> a = b))
          (categories (scoreCategories xs)) (categories (scoreCategories ys))"
    using eq by (simp add: scoreCategories_eq)
  ultimately show ?thesis by simp
qed

theorem scoreCategories_frame_witness:
  "differOnlyAt ''title_tag'' (allPassExcept [(''title_tag'', Fail)])
      (allPassExcept [(''title_tag'', Warn)])
   \<and> map cat_id (categories (scoreCategories (allPassExcept [(''title_tag'', Fail)]))) =
       map cat_id (categories (scoreCategories (allPassExcept [(''title_tag'', Warn)])))
   \<and> categories (scoreCategories (allPassExcept [(''title_tag'', Fail)])) ! 0 =
       categories (scoreCategories (allPassExcept [(''title_tag'', Warn)])) ! 0
   \<and> categories (scoreCategories (allPassExcept [(''title_tag'', Fail)])) ! 2 =
       categories (scoreCategories (allPassExcept [(''title_tag'', Warn)])) ! 2
   \<and> categories (scoreCategories (allPassExcept [(''title_tag'', Fail)])) ! 3 =
       categories (scoreCategories (allPassExcept [(''title_tag'', Warn)])) ! 3"
proof -
  have h: "differOnlyAt ''title_tag'' (allPassExcept [(''title_tag'', Fail)])
      (allPassExcept [(''title_tag'', Warn)])"
    by (simp add: differOnlyAt_def allPassExcept_def issuesWith_def catalogue_def)
  from scoreCategories_frame [OF h] show ?thesis using h
    by (simp add: scoreCategories_eq weightsOf_simps)
qed



section \<open>Properties of the home-page evaluator\<close>

lemmas issue_defs = titleIssue_def metaDescriptionIssue_def viewportIssue_def h1Issue_def
  headingHierarchyIssue_def canonicalIssue_def robotsIssue_def openGraphIssue_def
  mixedContentIssue_def imageAltIssue_def imageLazyIssue_def imageFilenameIssue_def
  internalLinksIssue_def publishDateIssue_def wordCountIssue_def entitySchemaIssue_def
  entityNapIssue_def entitySocialIssue_def faviconIssue_def manifestIssue_def
  charsetIssue_def htmlLangIssue_def copyrightIssue_def


text \<open>
  \<^bold>\<open>C3.\<close> For every markup, every header map and every URL (a text that parses as one),
  the home-page evaluator returns exactly one issue per catalogue check: the 23 ids of the
  catalogue, each once, in the catalogue's order and with the catalogue's category,
  whatever signals the markup holds.
\<close>

theorem evaluateHome_emits_catalogue:
  assumes "parseURL url \<noteq> None"
  shows "\<exists>issues. evaluateHome y html headers url = Inr issues
           \<and> map (\<lambda>i. (issue_id i, category i)) issues = catalogue
           \<and> length issues = 23
           \<and> distinct (map issue_id issues)"
proof -
  from assms obtain base where b: "parseURL url = Some base" by auto
  show ?thesis
    by (simp add: evaluateHome_def b issue_defs Let_def catalogue_def)
qed

theorem evaluateHome_emits_catalogue_witness:
  "parseURL ''https://example.com/'' \<noteq> None
   \<and> (\<exists>issues. evaluateHome 2026 samplePage Map.empty ''https://example.com/'' = Inr issues
           \<and> map (\<lambda>i. (issue_id i, category i)) issues = catalogue
           \<and> length issues = 23
           \<and> distinct (map issue_id issues))"
proof -
  have h: "parseURL ''https://example.com/'' \<noteq> None" by code_simp
  from evaluateHome_emits_catalogue [OF h] show ?thesis by (rule conjI [OF h])
qed


text \<open>
  \<^bold>\<open>C10.\<close> For every page in which the image scan finds no \<^verbatim>\<open><img>\<close> tag, the three
  image checks take different defaults: the missing-alt ratio is 0 and \<open>image_alt\<close> passes,
  the descriptive ratio is 1 and \<open>image_filename\<close> passes, but the lazy ratio is 0 and
  \<open>image_lazy\<close> fails.
\<close>

theorem no_images_defaults:
  assumes "imgTags html = []"
    and "evaluateHome y html headers url = Inr issues"
  shows "map (\<lambda>i. (issue_id i, status i))
           (filter (\<lambda>i. issue_id i = ''image_alt'' \<or> issue_id i = ''image_lazy''
                        \<or> issue_id i = ''image_filename'') issues) =
         [(''image_alt'', Pass), (''image_lazy'', Fail), (''image_filename'', Pass)]
       \<and> missingRatio (imgTags html) = 0
       \<and> lazyRatio (imgTags html) = 0
       \<and> descRatio (imgTags html) = 1"
proof -
  from assms(2) obtain base where b: "parseURL url = Some base"
    by (auto simp: evaluateHome_def split: option.splits)
  from assms(2) have "issues = [titleIssue html url, metaDescriptionIssue html url, viewportIssue html url,
               h1Issue html url, headingHierarchyIssue html url, canonicalIssue html url,
               robotsIssue html headers url, openGraphIssue html url,
               mixedContentIssue html url, imageAltIssue html url, imageLazyIssue html url,
               imageFilenameIssue html url, internalLinksIssue base html url,
               publishDateIssue html url, wordCountIssue html url, entitySchemaIssue html url,
               entityNapIssue html url, entitySocialIssue html url, faviconIssue html url,
               manifestIssue html url, charsetIssue html url, htmlLangIssue html url,
               copyrightIssue y html url]"
    by (simp add: evaluateHome_def b)
  then show ?thesis
    by (simp add: issue_defs Let_def assms(1) missingRatio_def lazyRatio_def descRatio_def)
qed

theorem no_images_defaults_witness:
  "imgTags samplePage = []
   \<and> (\<exists>issues. evaluateHome 2026 samplePage Map.empty ''https://example.com/'' = Inr issues
        \<and> map (\<lambda>i. (issue_id i, status i))
           (filter (\<lambda>i. issue_id i = ''image_alt'' \<or> issue_id i = ''image_lazy''
                        \<or> issue_id i = ''image_filename'') issues) =
         [(''image_alt'', Pass), (''image_lazy'', Fail), (''image_filename'', Pass)])"
proof -
  have h: "imgTags samplePage = []" by code_simp
  have "parseURL ''https://example.com/'' \<noteq> None" by code_simp
  then obtain issues where
    e: "evaluateHome 2026 samplePage Map.empty ''https://example.com/'' = Inr issues"
    by (auto simp: evaluateHome_def)
  from no_images_defaults [OF h e] have m: "map (\<lambda>i. (issue_id i, status i))
           (filter (\<lambda>i. issue_id i = ''image_alt'' \<or> issue_id i = ''image_lazy''
                        \<or> issue_id i = ''image_filename'') issues) =
         [(''image_alt'', Pass), (''image_lazy'', Fail), (''image_filename'', Pass)]"
    by (rule conjunct1)
  from e m have "\<exists>issues. evaluateHome 2026 samplePage Map.empty ''https://example.com/'' = Inr issues
        \<and> map (\<lambda>i. (issue_id i, status i))
           (filter (\<lambda>i. issue_id i = ''image_alt'' \<or> issue_id i = ''image_lazy''
                        \<or> issue_id i = ''image_filename'') issues) =
         [(''image_alt'', Pass), (''image_lazy'', Fail), (''image_filename'', Pass)]"
    by (intro exI conjI)
  with h show ?thesis by (rule conjI)
qed


section \<open>Properties of structured-data extraction and contact discovery\<close>

text \<open>
  \<^bold>\<open>C8.\<close> When the scan of a markup finds two structured-data blocks of which one parses
  as JSON and the other does not (in either order), the extraction returns exactly the
  records of the block that parses, a single record when that block is one object. The
  extraction has no error result: a throwing \<^verbatim>\<open>JSON.parse\<close> is caught per block.
\<close>

theorem extractJsonLd_drops_malformed_block:
  assumes "ldJsonBlocks html = [b1, b2]"
    and "JSON_parse pf b1 = Some j \<and> JSON_parse pf b2 = None
       \<or> JSON_parse pf b1 = None \<and> JSON_parse pf b2 = Some j"
  shows "extractJsonLd pf html = recordsOf j
       \<and> (case j of JObj kvs \<Rightarrow> extractJsonLd pf html = [j] | _ \<Rightarrow> True)"
  using assms
  by (auto simp: extractJsonLd_def blockRecords_def recordsOf_def split: json.splits)

theorem extractJsonLd_drops_malformed_block_witness:
  "ldJsonBlocks twoBlocks = [''{bad'', ''{}'']
   \<and> JSON_parse parsesEmptyObject ''{bad'' = None
   \<and> JSON_parse parsesEmptyObject ''{}'' = Some (JObj [])
   \<and> extractJsonLd parsesEmptyObject twoBlocks = [JObj []]"
proof -
  have b: "ldJsonBlocks twoBlocks = [''{bad'', ''{}'']" by code_simp
  have p: "JSON_parse parsesEmptyObject ''{bad'' = None"
    "JSON_parse parsesEmptyObject ''{}'' = Some (JObj [])"
    by (simp_all add: parsesEmptyObject_def)
  from p have d: "JSON_parse parsesEmptyObject ''{bad'' = Some (JObj []) \<and> JSON_parse parsesEmptyObject ''{}'' = None
       \<or> JSON_parse parsesEmptyObject ''{bad'' = None \<and> JSON_parse parsesEmptyObject ''{}'' = Some (JObj [])"
    by simp
  from extractJsonLd_drops_malformed_block [OF b d] have "extractJsonLd parsesEmptyObject twoBlocks = [JObj []]"
    by (simp add: recordsOf_def)
  with b p show ?thesis by simp
qed


text \<open>
  \<^bold>\<open>C7\<close> does not hold of the code. On a page whose body is
  \<^verbatim>\<open>jane [at] example [dot] com\<close> contact discovery finds no contact at all: the e-mail
  pattern asks for a literal dot in the domain, so it never matches a \<^verbatim>\<open>[dot]\<close>
  domain, and \<^verbatim>\<open>deobfuscateEmail\<close>, which would rewrite \<^verbatim>\<open>[dot]\<close>, only ever sees
  what the pattern has matched.
\<close>

theorem dot_obfuscated_email_not_found:
  "discoverContacts pf [(url, ''jane [at] example [dot] com'')] = \<lparr>contacts = [], best = None\<rparr>"
  by code_simp








section \<open>Properties of the origin normaliser\<close>

text \<open>
  \<^bold>\<open>C6\<close> does not hold of the code, on two counts. The test for a missing scheme is
  \<^verbatim>\<open>input.startsWith("http")\<close>: the name \<^verbatim>\<open>httpbin.org\<close> has no scheme, yet it is parsed
  without the prefix and the call throws, while with the prefix it parses. And the result
  is \<^verbatim>\<open>new URL(u.origin).toString()\<close>, which is not the origin but the origin followed by
  the root path: for \<^verbatim>\<open>example.com\<close> the origin is \<^verbatim>\<open>https://example.com\<close>, the result
  \<^verbatim>\<open>https://example.com/\<close>.
\<close>

theorem normaliseOrigin_misses_origin:
  "startsWith ''httpbin.org'' ''http''
   \<and> normaliseOrigin ''httpbin.org'' = Inl (TypeError ''Invalid URL'')
   \<and> normaliseOrigin ''https://httpbin.org'' = Inr ''https://httpbin.org/''
   \<and> map_option origin (parseURL ''https://example.com'') = Some ''https://example.com''
   \<and> normaliseOrigin ''example.com'' = Inr ''https://example.com/''"
  by code_simp

section \<open>Properties of the request handler\<close>

text \<open>
  \<^bold>\<open>C5\<close> as stated fails: the handler has no check for an empty batch. An empty input
  list is answered with status 200 and an empty list of results.
\<close>

theorem empty_batch_is_not_an_error:
  "POST (\<lambda>origin. Inl (Error ''Failed to fetch'') :: exn + string) (Some (JArr [])) =
     \<lparr>body = Many [], http_status = 200\<rparr>"
  by code_simp


text \<open>
  \<^bold>\<open>C5, amended.\<close> If the origin list is empty after normalisation and deduplication (as
  for an empty input list), the request succeeds: status 200 with an empty list of
  results, whatever the audit of an origin would do.
\<close>

theorem empty_batch_succeeds:
  assumes "originList input = Inr []"
  shows "POST auditOne input = \<lparr>body = Many [], http_status = 200\<rparr>"
  using assms by (simp add: POST_def)

theorem empty_batch_succeeds_witness:
  "originList (Some (JArr [])) = Inr []
   \<and> POST (\<lambda>origin. Inl (Error ''Failed to fetch'') :: exn + string) (Some (JArr [])) =
       \<lparr>body = Many [], http_status = 200\<rparr>"
proof -
  have h: "originList (Some (JArr [])) = Inr []" by code_simp
  from empty_batch_succeeds [OF h] show ?thesis by (rule conjI [OF h])
qed


end
